theory Spec2Isabelle
  imports
    Complex_Main
    "HOL-Library.Char_ord"
    "HOL-Library.List_Lexorder"
    "HOL-Library.Product_Lexorder"
begin

section \<open>Hall booking system: server actions over a relational store\<close>

text \<open>
  The repository is a set of server actions (\<^verbatim>\<open>app/actions/*.ts\<close>) over a Prisma
  store. An action validates its input with a zod schema, issues one or more store calls
  and returns a result envelope. The embedding below follows the source action by action:
  \<^item> rows are records, status columns are datatypes, time slots and categories are the
    strings the source compares;
  \<^item> a JavaScript \<^verbatim>\<open>Date\<close> is its time value in milliseconds (an \<open>int\<close>); the in-place
    \<^verbatim>\<open>setHours\<close> is written as explicit updates of the validated record;
  \<^item> a JavaScript number is the rational it denotes (type \<open>number\<close>); the sums and
    products the code computes are rounded to the nearest binary64 value, ties to even,
    as the host does (\<open>jsAdd\<close>, \<open>jsMul\<close>). Infinity, NaN and results beyond the
    largest finite double are outside the model, and so is the sign of zero;
  \<^item> the host's time zone is a parameter: \<open>localTZA\<close> gives the offset of local time
    at a UTC instant and at a local time, as ECMAScript's LocalTZA does, so that daylight
    saving hosts are covered;
  \<^item> an action is a function from the world to a result and a new world; a thrown
    exception is the result \<open>Inl e\<close>, so \<^verbatim>\<open>try { ... } catch\<close> is a combinator;
  \<^item> every store call may throw: the world carries a script \<open>storeFault\<close> telling, for
    the k-th call, whether it throws and what. What the store's schema (which is not
    among the sources) would refuse, such as a foreign key or a unique constraint, is
    a call that throws.

  Left out of the rows: the joined projections that \<^verbatim>\<open>include\<close> attaches to a returned
  booking (the user table is outside the repository), and columns that the store
  maintains by itself and that no action reads or writes.
\<close>

subsection \<open>Exceptions, envelopes, actions\<close>

datatype exn =
    Error string       \<comment> \<open>a thrown value with \<^verbatim>\<open>instanceof Error\<close>, and its message\<close>
  | NonError string    \<comment> \<open>any other thrown value\<close>

datatype 'a envelope =
    Data 'a                    \<comment> \<open>\<^verbatim>\<open>{ success: true, data }\<close>\<close>
  | Message string             \<comment> \<open>\<^verbatim>\<open>{ success: true, message }\<close>\<close>
  | Availability bool string   \<comment> \<open>\<^verbatim>\<open>{ success: true, isAvailable, message }\<close>\<close>
  | Failure string             \<comment> \<open>\<^verbatim>\<open>{ success: false, error }\<close>\<close>

datatype bookingStatus = PENDING | CONFIRMED | COMPLETED | CANCELLED

datatype paymentStatus = PAY_PENDING | PAID | PARTIAL | FAILED | REFUNDED

text \<open>A finite JavaScript number, as the rational number it denotes.\<close>

type_synonym number = rat

subsection \<open>Rows of the store\<close>

record hall =
  h_id :: string
  h_name :: string
  h_description :: "string option"
  h_capacity :: number
  h_basePrice :: number
  h_images :: "string list"
  h_amenities :: "string list"
  h_isActive :: bool
  h_createdAt :: int

record foodItem =
  f_id :: string
  f_name :: string
  f_category :: string
  f_price :: number
  f_isVeg :: bool
  f_description :: "string option"
  f_image :: "string option"
  f_isAvailable :: bool

record theme =
  t_id :: string
  t_name :: string
  t_description :: "string option"
  t_price :: number
  t_images :: "string list"
  t_isAvailable :: bool

record selectedFood =
  sf_id :: string
  sf_name :: string
  quantity :: number
  price :: number

record selectedThemeSnapshot =
  st_id :: string
  st_name :: string
  st_price :: number

record customer =
  c_name :: string
  c_email :: string
  c_phone :: string
  c_address :: string

record booking =
  b_id :: string
  bookingNumber :: string
  userId :: string
  hallId :: string
  eventDate :: int
  timeSlot :: string
  guestCount :: number
  eventType :: string
  selectedFoods :: "selectedFood list"
  selectedTheme :: "selectedThemeSnapshot option"
  totalAmount :: number
  customerDetails :: customer
  specialRequests :: "string option"
  status :: bookingStatus
  paymentStatus :: paymentStatus
  paymentId :: "string option"
  b_createdAt :: int

subsection \<open>Inputs of the actions\<close>

record bookingInput =
  in_hallId :: string
  in_eventDate :: int
  in_timeSlot :: string
  in_guestCount :: number
  in_eventType :: string
  in_selectedFoods :: "selectedFood list"
  in_selectedTheme :: "selectedThemeSnapshot option"
  in_customerDetails :: customer
  in_specialRequests :: "string option"

text \<open>
  The inputs of the hall, food and theme actions serve both \<^verbatim>\<open>schema.parse\<close> and
  \<^verbatim>\<open>schema.partial().parse\<close>: every key may be absent (\<open>None\<close>).
\<close>

record hallInput =
  hi_name :: "string option"
  hi_description :: "string option"
  hi_capacity :: "number option"
  hi_basePrice :: "number option"
  hi_images :: "string list option"
  hi_amenities :: "string list option"
  hi_isActive :: "bool option"

record foodItemInput =
  fi_name :: "string option"
  fi_category :: "string option"
  fi_price :: "number option"
  fi_isVeg :: "bool option"
  fi_description :: "string option"
  fi_image :: "string option"
  fi_isAvailable :: "bool option"

record themeInput =
  ti_name :: "string option"
  ti_description :: "string option"
  ti_price :: "number option"
  ti_images :: "string list option"
  ti_isAvailable :: "bool option"

text \<open>The \<^verbatim>\<open>data\<close> object of \<^verbatim>\<open>prisma.booking.update\<close>: absent keys are left alone.\<close>

record bookingUpdate =
  u_status :: "bookingStatus option"
  u_paymentStatus :: "paymentStatus option"
  u_paymentId :: "string option"
  u_specialRequests :: "string option"

subsection \<open>The world: store tables, store faults, JavaScript runtime\<close>

record world =
  halls :: "hall list"
  foodItems :: "foodItem list"
  themes :: "theme list"
  bookings :: "booking list"
  storeFault :: "nat \<Rightarrow> exn option"   \<comment> \<open>what the k-th store call throws, if anything\<close>
  storeCalls :: nat                      \<comment> \<open>number of store calls made so far\<close>
  newId :: "nat \<Rightarrow> string"             \<comment> \<open>the id the store mints at its k-th call\<close>
  now :: int                             \<comment> \<open>the clock, in milliseconds\<close>
  today :: "nat \<times> nat \<times> nat"             \<comment> \<open>local getFullYear, getMonth, getDate of the clock\<close>
  random :: nat                          \<comment> \<open>\<^verbatim>\<open>Math.floor(Math.random() * 10000)\<close>\<close>
  revalidated :: "string list"           \<comment> \<open>paths passed to revalidatePath\<close>
  console :: "string list"               \<comment> \<open>labels passed to console.error and console.log\<close>

text \<open>What the actions take from their libraries and host, fixed for a whole run.\<close>

record runtime =
  localTZA :: "int \<Rightarrow> bool \<Rightarrow> int"
    \<comment> \<open>the host zone: local time minus UTC in milliseconds, at a UTC instant (\<open>True\<close>)
        or at a local time (\<open>False\<close>)\<close>
  schemaLoadedAt :: int                  \<comment> \<open>the \<^verbatim>\<open>new Date()\<close> evaluated when the schema module loads\<close>
  isUrl :: "string \<Rightarrow> bool"               \<comment> \<open>zod's url check\<close>
  isEmail :: "string \<Rightarrow> bool"             \<comment> \<open>zod's email check\<close>
  zodErrorMessage :: "string list \<Rightarrow> string"  \<comment> \<open>message of a ZodError with these issue paths\<close>

type_synonym 'a action = "world \<Rightarrow> (exn + 'a) \<times> world"

definition return :: "'a \<Rightarrow> 'a action" where
  "return x w = (Inr x, w)"

definition await :: "'a action \<Rightarrow> ('a \<Rightarrow> 'b action) \<Rightarrow> 'b action" where
  "await m k w = (case m w of (Inl e, w') \<Rightarrow> (Inl e, w') | (Inr x, w') \<Rightarrow> k x w')"

definition try_catch :: "'a action \<Rightarrow> (exn \<Rightarrow> 'a action) \<Rightarrow> 'a action" where
  "try_catch body handler w =
     (case body w of (Inl e, w') \<Rightarrow> handler e w' | (Inr x, w') \<Rightarrow> (Inr x, w'))"

text \<open>
  \<^verbatim>\<open>await Promise.all([p, q])\<close>: both calls are issued; the first rejection, in array
  order, is thrown.
\<close>

definition promise_all :: "'a action \<Rightarrow> 'b action \<Rightarrow> ('a \<times> 'b) action" where
  "promise_all p q w =
     (case p w of (r1, w1) \<Rightarrow>
        (case q w1 of (r2, w2) \<Rightarrow>
           (case r1 of
              Inl e \<Rightarrow> (Inl e, w2)
            | Inr a \<Rightarrow> (case r2 of Inl e \<Rightarrow> (Inl e, w2) | Inr b \<Rightarrow> (Inr (a, b), w2)))))"

definition revalidatePath :: "string \<Rightarrow> unit action" where
  "revalidatePath p w = (Inr (), w\<lparr>revalidated := revalidated w @ [p]\<rparr>)"

definition console_error :: "string \<Rightarrow> unit action" where
  "console_error label w = (Inr (), w\<lparr>console := console w @ [label]\<rparr>)"

subsection \<open>Dates on the host\<close>

text \<open>
  Local time on the host, after ECMAScript: \<open>LocalTime\<close> turns a UTC instant into the
  local time value, \<open>UTC\<close> turns a local time value into an instant. On a host that
  changes its clocks, a local time can be skipped or repeated; \<open>localTZA\<close> then answers
  with the offset in force before the change.
\<close>

definition msPerDay :: int where
  "msPerDay = 86400000"

definition LocalTime :: "runtime \<Rightarrow> int \<Rightarrow> int" where
  "LocalTime rt t = t + localTZA rt t True"

definition UTC :: "runtime \<Rightarrow> int \<Rightarrow> int" where
  "UTC rt t = t - localTZA rt t False"

text \<open>
  \<^verbatim>\<open>date.setHours(h, m, s, ms)\<close>: the local day of the date with the given time of day,
  converted back to an instant; the date is set to it and it is returned.
\<close>

definition setHours :: "runtime \<Rightarrow> int \<Rightarrow> int \<Rightarrow> int \<Rightarrow> int \<Rightarrow> int \<Rightarrow> int" where
  "setHours rt t h m s ms =
     UTC rt (msPerDay * (LocalTime rt t div msPerDay) + (((h * 60 + m) * 60 + s) * 1000 + ms))"

text \<open>
  A host with one offset all year, and a host whose clocks change once, at a UTC
  instant, from one offset to another. A local time that the change skips or repeats
  is read with the offset before the change.
\<close>

definition fixedZone :: "int \<Rightarrow> int \<Rightarrow> bool \<Rightarrow> int" where
  "fixedZone offset t isUTC = offset"

definition zoneWithChange :: "int \<Rightarrow> int \<Rightarrow> int \<Rightarrow> int \<Rightarrow> bool \<Rightarrow> int" where
  "zoneWithChange offset1 change offset2 t isUTC =
     (if isUTC then (if t < change then offset1 else offset2)
      else (if t < change + max offset1 offset2 then offset1 else offset2))"

subsection \<open>JavaScript numbers\<close>

text \<open>
  Rounding to binary64: a nonzero \<open>x\<close> with \<open>2 ^ e \<le> |x| < 2 ^ (e + 1)\<close> is rounded to
  the nearest multiple of \<open>2 ^ (e - 52)\<close> (of \<open>2 ^ (-1074)\<close> for subnormal values),
  ties to the even multiple.
\<close>

definition pow2 :: "int \<Rightarrow> rat" where
  "pow2 k = (if 0 \<le> k then 2 ^ nat k else 1 / 2 ^ nat (- k))"

function log2floor :: "int \<Rightarrow> int" where
  "log2floor n = (if n < 2 then 0 else log2floor (n div 2) + 1)"
  by pat_completeness auto
termination
  by (relation "measure nat") auto

declare log2floor.simps [simp del]

definition binaryExponent :: "rat \<Rightarrow> int" where
  "binaryExponent x =
     (if 1 \<le> x then log2floor \<lfloor>x\<rfloor>
      else - (log2floor (\<lceil>1 / x\<rceil> - 1) + 1))"

definition roundHalfEven :: "rat \<Rightarrow> int" where
  "roundHalfEven m =
     (let f = \<lfloor>m\<rfloor>; d = m - of_int f
      in if d < 1 / 2 then f
         else if 1 / 2 < d then f + 1
         else if even f then f else f + 1)"

definition toDouble :: "rat \<Rightarrow> number" where
  "toDouble x =
     (if x = 0 then 0
      else (let q = pow2 (max (binaryExponent \<bar>x\<bar>) (- 1022) - 52)
            in sgn x * of_int (roundHalfEven (\<bar>x\<bar> / q)) * q))"

definition jsAdd :: "number \<Rightarrow> number \<Rightarrow> number" where
  "jsAdd x y = toDouble (x + y)"

definition jsMul :: "number \<Rightarrow> number \<Rightarrow> number" where
  "jsMul x y = toDouble (x * y)"

text \<open>\<^verbatim>\<open>x || 0\<close> on a number that may be null or undefined.\<close>

definition orZero :: "number option \<Rightarrow> number" where
  "orZero x = (case x of None \<Rightarrow> 0 | Some v \<Rightarrow> (if v = 0 then 0 else v))"

subsection \<open>Strings and lists\<close>

text \<open>\<^verbatim>\<open>toString\<close> of a natural number and \<^verbatim>\<open>padStart\<close> with a one-character pad.\<close>

fun toString :: "nat \<Rightarrow> string" where
  "toString n =
     (if n < 10 then [''0123456789'' ! n]
      else toString (n div 10) @ [''0123456789'' ! (n mod 10)])"

declare toString.simps [simp del]

definition padStart :: "string \<Rightarrow> nat \<Rightarrow> char \<Rightarrow> string" where
  "padStart s n c = replicate (n - length s) c @ s"

text \<open>List helpers for a table whose key identifies at most one row.\<close>

fun update_first :: "('a \<Rightarrow> bool) \<Rightarrow> ('a \<Rightarrow> 'a) \<Rightarrow> 'a list \<Rightarrow> 'a list" where
  "update_first P f [] = []"
| "update_first P f (x # xs) = (if P x then f x # xs else x # update_first P f xs)"

fun remove_first :: "('a \<Rightarrow> bool) \<Rightarrow> 'a list \<Rightarrow> 'a list" where
  "remove_first P [] = []"
| "remove_first P (x # xs) = (if P x then xs else x # remove_first P xs)"

subsection \<open>The persistence gateway (the calls the actions make on \<^verbatim>\<open>prisma\<close>)\<close>

text \<open>
  Every call counts as one store call and throws what the fault script says for it;
  otherwise it reads or writes the tables. \<^verbatim>\<open>update\<close> and \<^verbatim>\<open>delete\<close> throw when no
  row has the given id, as Prisma does.
\<close>

definition prismaCall :: "'a action \<Rightarrow> 'a action" where
  "prismaCall operation w =
     (case storeFault w (storeCalls w) of
        Some e \<Rightarrow> (Inl e, w\<lparr>storeCalls := Suc (storeCalls w)\<rparr>)
      | None \<Rightarrow> operation (w\<lparr>storeCalls := Suc (storeCalls w)\<rparr>))"

definition recordNotFound :: exn where
  "recordNotFound = Error ''Record to update or delete does not exist.''"

definition booking_findFirst :: "(booking \<Rightarrow> bool) \<Rightarrow> booking option action" where
  "booking_findFirst wh = prismaCall (\<lambda>w. (Inr (find wh (bookings w)), w))"

definition booking_findUnique :: "string \<Rightarrow> booking option action" where
  "booking_findUnique i = prismaCall (\<lambda>w. (Inr (find (\<lambda>b. b_id b = i) (bookings w)), w))"

definition booking_findMany_createdAt_desc :: "(booking \<Rightarrow> bool) \<Rightarrow> booking list action" where
  "booking_findMany_createdAt_desc wh =
     prismaCall (\<lambda>w. (Inr (rev (sort_key b_createdAt (filter wh (bookings w)))), w))"

definition booking_count :: "(booking \<Rightarrow> bool) \<Rightarrow> nat action" where
  "booking_count wh = prismaCall (\<lambda>w. (Inr (length (filter wh (bookings w))), w))"

text \<open>\<^verbatim>\<open>aggregate({ where, _sum: { totalAmount: true } })\<close>: the sum is null over no rows.\<close>

definition booking_aggregate_sum_totalAmount :: "(booking \<Rightarrow> bool) \<Rightarrow> number option action" where
  "booking_aggregate_sum_totalAmount wh =
     prismaCall (\<lambda>w.
       (Inr (case filter wh (bookings w) of
               [] \<Rightarrow> None
             | r # rs \<Rightarrow> Some (sum_list (map totalAmount (r # rs)))), w))"

text \<open>\<^verbatim>\<open>create\<close>: the store mints the id and the creation time of the new row.\<close>

definition booking_create :: "booking \<Rightarrow> booking action" where
  "booking_create d =
     prismaCall (\<lambda>w.
       (let row = d\<lparr>b_id := newId w (storeCalls w), b_createdAt := now w\<rparr>
        in (Inr row, w\<lparr>bookings := bookings w @ [row]\<rparr>)))"

text \<open>A key of an update's \<^verbatim>\<open>data\<close> that is undefined leaves the column as it is.\<close>

definition setOrKeep :: "'a \<Rightarrow> 'a option \<Rightarrow> 'a" where
  "setOrKeep old v = (case v of None \<Rightarrow> old | Some x \<Rightarrow> x)"

definition applyBookingUpdate :: "bookingUpdate \<Rightarrow> booking \<Rightarrow> booking" where
  "applyBookingUpdate u b =
     b\<lparr>status := setOrKeep (status b) (u_status u),
       paymentStatus := setOrKeep (paymentStatus b) (u_paymentStatus u),
       paymentId := (case u_paymentId u of None \<Rightarrow> paymentId b | Some p \<Rightarrow> Some p),
       specialRequests :=
         (case u_specialRequests u of None \<Rightarrow> specialRequests b | Some s \<Rightarrow> Some s)\<rparr>"

definition booking_update :: "string \<Rightarrow> bookingUpdate \<Rightarrow> booking action" where
  "booking_update i u =
     prismaCall (\<lambda>w.
       (case find (\<lambda>b. b_id b = i) (bookings w) of
          None \<Rightarrow> (Inl recordNotFound, w)
        | Some b \<Rightarrow>
            (Inr (applyBookingUpdate u b),
             w\<lparr>bookings := update_first (\<lambda>b. b_id b = i) (applyBookingUpdate u) (bookings w)\<rparr>)))"

definition hall_findUnique :: "string \<Rightarrow> hall option action" where
  "hall_findUnique i = prismaCall (\<lambda>w. (Inr (find (\<lambda>h. h_id h = i) (halls w)), w))"

definition hall_findMany_createdAt_desc :: "(hall \<Rightarrow> bool) \<Rightarrow> hall list action" where
  "hall_findMany_createdAt_desc wh =
     prismaCall (\<lambda>w. (Inr (rev (sort_key h_createdAt (filter wh (halls w)))), w))"

definition hall_create :: "hall \<Rightarrow> hall action" where
  "hall_create d =
     prismaCall (\<lambda>w.
       (let row = d\<lparr>h_id := newId w (storeCalls w), h_createdAt := now w\<rparr>
        in (Inr row, w\<lparr>halls := halls w @ [row]\<rparr>)))"

definition applyHallUpdate :: "hallInput \<Rightarrow> hall \<Rightarrow> hall" where
  "applyHallUpdate u h =
     h\<lparr>h_name := setOrKeep (h_name h) (hi_name u),
       h_description := (case hi_description u of None \<Rightarrow> h_description h | Some d \<Rightarrow> Some d),
       h_capacity := setOrKeep (h_capacity h) (hi_capacity u),
       h_basePrice := setOrKeep (h_basePrice h) (hi_basePrice u),
       h_images := setOrKeep (h_images h) (hi_images u),
       h_amenities := setOrKeep (h_amenities h) (hi_amenities u),
       h_isActive := setOrKeep (h_isActive h) (hi_isActive u)\<rparr>"

definition hall_update :: "string \<Rightarrow> hallInput \<Rightarrow> hall action" where
  "hall_update i u =
     prismaCall (\<lambda>w.
       (case find (\<lambda>h. h_id h = i) (halls w) of
          None \<Rightarrow> (Inl recordNotFound, w)
        | Some h \<Rightarrow>
            (Inr (applyHallUpdate u h),
             w\<lparr>halls := update_first (\<lambda>h. h_id h = i) (applyHallUpdate u) (halls w)\<rparr>)))"

definition hall_delete :: "string \<Rightarrow> hall action" where
  "hall_delete i =
     prismaCall (\<lambda>w.
       (case find (\<lambda>h. h_id h = i) (halls w) of
          None \<Rightarrow> (Inl recordNotFound, w)
        | Some h \<Rightarrow> (Inr h, w\<lparr>halls := remove_first (\<lambda>h. h_id h = i) (halls w)\<rparr>)))"

definition foodItem_findUnique :: "string \<Rightarrow> foodItem option action" where
  "foodItem_findUnique i = prismaCall (\<lambda>w. (Inr (find (\<lambda>x. f_id x = i) (foodItems w)), w))"

definition foodItem_findMany_category_name_asc :: "(foodItem \<Rightarrow> bool) \<Rightarrow> foodItem list action" where
  "foodItem_findMany_category_name_asc wh =
     prismaCall (\<lambda>w.
       (Inr (sort_key (\<lambda>x. (f_category x, f_name x)) (filter wh (foodItems w))), w))"

definition foodItem_findMany_name_asc :: "(foodItem \<Rightarrow> bool) \<Rightarrow> foodItem list action" where
  "foodItem_findMany_name_asc wh =
     prismaCall (\<lambda>w. (Inr (sort_key f_name (filter wh (foodItems w))), w))"

definition foodItem_create :: "foodItem \<Rightarrow> foodItem action" where
  "foodItem_create d =
     prismaCall (\<lambda>w.
       (let row = d\<lparr>f_id := newId w (storeCalls w)\<rparr>
        in (Inr row, w\<lparr>foodItems := foodItems w @ [row]\<rparr>)))"

definition applyFoodItemUpdate :: "foodItemInput \<Rightarrow> foodItem \<Rightarrow> foodItem" where
  "applyFoodItemUpdate u x =
     x\<lparr>f_name := setOrKeep (f_name x) (fi_name u),
       f_category := setOrKeep (f_category x) (fi_category u),
       f_price := setOrKeep (f_price x) (fi_price u),
       f_isVeg := setOrKeep (f_isVeg x) (fi_isVeg u),
       f_description := (case fi_description u of None \<Rightarrow> f_description x | Some d \<Rightarrow> Some d),
       f_image := (case fi_image u of None \<Rightarrow> f_image x | Some d \<Rightarrow> Some d),
       f_isAvailable := setOrKeep (f_isAvailable x) (fi_isAvailable u)\<rparr>"

definition foodItem_update :: "string \<Rightarrow> foodItemInput \<Rightarrow> foodItem action" where
  "foodItem_update i u =
     prismaCall (\<lambda>w.
       (case find (\<lambda>x. f_id x = i) (foodItems w) of
          None \<Rightarrow> (Inl recordNotFound, w)
        | Some x \<Rightarrow>
            (Inr (applyFoodItemUpdate u x),
             w\<lparr>foodItems :=
                 update_first (\<lambda>x. f_id x = i) (applyFoodItemUpdate u) (foodItems w)\<rparr>)))"

definition foodItem_delete :: "string \<Rightarrow> foodItem action" where
  "foodItem_delete i =
     prismaCall (\<lambda>w.
       (case find (\<lambda>x. f_id x = i) (foodItems w) of
          None \<Rightarrow> (Inl recordNotFound, w)
        | Some x \<Rightarrow> (Inr x, w\<lparr>foodItems := remove_first (\<lambda>x. f_id x = i) (foodItems w)\<rparr>)))"

definition theme_findUnique :: "string \<Rightarrow> theme option action" where
  "theme_findUnique i = prismaCall (\<lambda>w. (Inr (find (\<lambda>x. t_id x = i) (themes w)), w))"

definition theme_findMany_name_asc :: "(theme \<Rightarrow> bool) \<Rightarrow> theme list action" where
  "theme_findMany_name_asc wh =
     prismaCall (\<lambda>w. (Inr (sort_key t_name (filter wh (themes w))), w))"

definition theme_create :: "theme \<Rightarrow> theme action" where
  "theme_create d =
     prismaCall (\<lambda>w.
       (let row = d\<lparr>t_id := newId w (storeCalls w)\<rparr>
        in (Inr row, w\<lparr>themes := themes w @ [row]\<rparr>)))"

definition applyThemeUpdate :: "themeInput \<Rightarrow> theme \<Rightarrow> theme" where
  "applyThemeUpdate u x =
     x\<lparr>t_name := setOrKeep (t_name x) (ti_name u),
       t_description := (case ti_description u of None \<Rightarrow> t_description x | Some d \<Rightarrow> Some d),
       t_price := setOrKeep (t_price x) (ti_price u),
       t_images := setOrKeep (t_images x) (ti_images u),
       t_isAvailable := setOrKeep (t_isAvailable x) (ti_isAvailable u)\<rparr>"

definition theme_update :: "string \<Rightarrow> themeInput \<Rightarrow> theme action" where
  "theme_update i u =
     prismaCall (\<lambda>w.
       (case find (\<lambda>x. t_id x = i) (themes w) of
          None \<Rightarrow> (Inl recordNotFound, w)
        | Some x \<Rightarrow>
            (Inr (applyThemeUpdate u x),
             w\<lparr>themes := update_first (\<lambda>x. t_id x = i) (applyThemeUpdate u) (themes w)\<rparr>)))"

definition theme_delete :: "string \<Rightarrow> theme action" where
  "theme_delete i =
     prismaCall (\<lambda>w.
       (case find (\<lambda>x. t_id x = i) (themes w) of
          None \<Rightarrow> (Inl recordNotFound, w)
        | Some x \<Rightarrow> (Inr x, w\<lparr>themes := remove_first (\<lambda>x. t_id x = i) (themes w)\<rparr>)))"

subsection \<open>Validation layer (\<^verbatim>\<open>lib/validations/booking.ts\<close>)\<close>

text \<open>
  A schema collects the paths of the checks that fail; \<^verbatim>\<open>parse\<close> throws a ZodError
  (an \<^verbatim>\<open>Error\<close>) when there is one, and returns the validated object otherwise.
  \<^verbatim>\<open>partial()\<close> makes every key optional and applies no default to an absent key.
\<close>

definition issue :: "bool \<Rightarrow> string \<Rightarrow> string list" where
  "issue bad path = (if bad then [path] else [])"

definition field :: "bool \<Rightarrow> string \<Rightarrow> 'a option \<Rightarrow> ('a \<Rightarrow> string list) \<Rightarrow> string list" where
  "field partial path v check =
     (case v of None \<Rightarrow> (if partial then [] else [path]) | Some x \<Rightarrow> check x)"

definition optionalField :: "'a option \<Rightarrow> ('a \<Rightarrow> string list) \<Rightarrow> string list" where
  "optionalField v check = (case v of None \<Rightarrow> [] | Some x \<Rightarrow> check x)"

definition zodThrow :: "runtime \<Rightarrow> string list \<Rightarrow> exn" where
  "zodThrow rt issues = Error (zodErrorMessage rt issues)"

definition fromResult :: "exn + 'a \<Rightarrow> 'a action" where
  "fromResult r w = (r, w)"

definition timeSlots :: "string list" where
  "timeSlots = [''Morning'', ''Evening'', ''Full Day'']"

definition categories :: "string list" where
  "categories = [''Appetizer'', ''Main Course'', ''Dessert'', ''Beverage'']"

definition urlArray_issues :: "runtime \<Rightarrow> string \<Rightarrow> string list \<Rightarrow> string list" where
  "urlArray_issues rt path xs =
     concat (map (\<lambda>u. issue (\<not> isUrl rt u) path) xs) @ issue (length xs < 1) path"

definition hallSchema_issues :: "bool \<Rightarrow> runtime \<Rightarrow> hallInput \<Rightarrow> string list" where
  "hallSchema_issues partial rt i =
     field partial ''name'' (hi_name i) (\<lambda>n. issue (length n < 3) ''name'') @
     field partial ''capacity'' (hi_capacity i) (\<lambda>c. issue (c < 50) ''capacity'') @
     field partial ''basePrice'' (hi_basePrice i) (\<lambda>p. issue (p < 1000) ''basePrice'') @
     field partial ''images'' (hi_images i) (urlArray_issues rt ''images'')"

definition hallSchema_parse :: "runtime \<Rightarrow> hallInput \<Rightarrow> exn + hall" where
  "hallSchema_parse rt i =
     (case hallSchema_issues False rt i of
        p # ps \<Rightarrow> Inl (zodThrow rt (p # ps))
      | [] \<Rightarrow>
         (case (hi_name i, hi_capacity i, hi_basePrice i, hi_images i) of
            (Some n, Some c, Some p, Some im) \<Rightarrow>
              Inr \<lparr>h_id = [], h_name = n, h_description = hi_description i, h_capacity = c,
                   h_basePrice = p, h_images = im,
                   h_amenities = setOrKeep [] (hi_amenities i),
                   h_isActive = setOrKeep True (hi_isActive i), h_createdAt = 0\<rparr>
          | _ \<Rightarrow> Inl (zodThrow rt [])))"

definition hallSchema_partial_parse :: "runtime \<Rightarrow> hallInput \<Rightarrow> exn + hallInput" where
  "hallSchema_partial_parse rt i =
     (case hallSchema_issues True rt i of
        p # ps \<Rightarrow> Inl (zodThrow rt (p # ps))
      | [] \<Rightarrow> Inr i)"

definition foodItemSchema_issues :: "bool \<Rightarrow> runtime \<Rightarrow> foodItemInput \<Rightarrow> string list" where
  "foodItemSchema_issues partial rt i =
     field partial ''name'' (fi_name i) (\<lambda>n. issue (length n < 2) ''name'') @
     field partial ''category'' (fi_category i) (\<lambda>c. issue (c \<notin> set categories) ''category'') @
     field partial ''price'' (fi_price i) (\<lambda>p. issue (p < 1) ''price'') @
     optionalField (fi_image i) (\<lambda>u. issue (\<not> isUrl rt u) ''image'')"

definition foodItemSchema_parse :: "runtime \<Rightarrow> foodItemInput \<Rightarrow> exn + foodItem" where
  "foodItemSchema_parse rt i =
     (case foodItemSchema_issues False rt i of
        p # ps \<Rightarrow> Inl (zodThrow rt (p # ps))
      | [] \<Rightarrow>
         (case (fi_name i, fi_category i, fi_price i) of
            (Some n, Some c, Some p) \<Rightarrow>
              Inr \<lparr>f_id = [], f_name = n, f_category = c, f_price = p,
                   f_isVeg = setOrKeep True (fi_isVeg i),
                   f_description = fi_description i, f_image = fi_image i,
                   f_isAvailable = setOrKeep True (fi_isAvailable i)\<rparr>
          | _ \<Rightarrow> Inl (zodThrow rt [])))"

definition foodItemSchema_partial_parse :: "runtime \<Rightarrow> foodItemInput \<Rightarrow> exn + foodItemInput" where
  "foodItemSchema_partial_parse rt i =
     (case foodItemSchema_issues True rt i of
        p # ps \<Rightarrow> Inl (zodThrow rt (p # ps))
      | [] \<Rightarrow> Inr i)"

definition themeSchema_issues :: "bool \<Rightarrow> runtime \<Rightarrow> themeInput \<Rightarrow> string list" where
  "themeSchema_issues partial rt i =
     field partial ''name'' (ti_name i) (\<lambda>n. issue (length n < 3) ''name'') @
     field partial ''price'' (ti_price i) (\<lambda>p. issue (p < 1000) ''price'') @
     field partial ''images'' (ti_images i) (urlArray_issues rt ''images'')"

definition themeSchema_parse :: "runtime \<Rightarrow> themeInput \<Rightarrow> exn + theme" where
  "themeSchema_parse rt i =
     (case themeSchema_issues False rt i of
        p # ps \<Rightarrow> Inl (zodThrow rt (p # ps))
      | [] \<Rightarrow>
         (case (ti_name i, ti_price i, ti_images i) of
            (Some n, Some p, Some im) \<Rightarrow>
              Inr \<lparr>t_id = [], t_name = n, t_description = ti_description i, t_price = p,
                   t_images = im, t_isAvailable = setOrKeep True (ti_isAvailable i)\<rparr>
          | _ \<Rightarrow> Inl (zodThrow rt [])))"

definition themeSchema_partial_parse :: "runtime \<Rightarrow> themeInput \<Rightarrow> exn + themeInput" where
  "themeSchema_partial_parse rt i =
     (case themeSchema_issues True rt i of
        p # ps \<Rightarrow> Inl (zodThrow rt (p # ps))
      | [] \<Rightarrow> Inr i)"

definition customerDetails_issues :: "runtime \<Rightarrow> customer \<Rightarrow> string list" where
  "customerDetails_issues rt c =
     issue (length (c_name c) < 2) ''customerDetails.name'' @
     issue (\<not> isEmail rt (c_email c)) ''customerDetails.email'' @
     issue (length (c_phone c) < 10) ''customerDetails.phone'' @
     issue (length (c_phone c) > 15) ''customerDetails.phone'' @
     issue (length (c_address c) < 10) ''customerDetails.address''"

definition bookingSchema_issues :: "runtime \<Rightarrow> bookingInput \<Rightarrow> string list" where
  "bookingSchema_issues rt i =
     issue (length (in_hallId i) < 1) ''hallId'' @
     issue (in_eventDate i < schemaLoadedAt rt) ''eventDate'' @
     issue (in_timeSlot i \<notin> set timeSlots) ''timeSlot'' @
     issue (in_guestCount i < 10) ''guestCount'' @
     issue (in_guestCount i > 2000) ''guestCount'' @
     issue (length (in_eventType i) < 2) ''eventType'' @
     concat (map (\<lambda>f. issue (quantity f < 1) ''selectedFoods.quantity'') (in_selectedFoods i)) @
     issue (length (in_selectedFoods i) < 1) ''selectedFoods'' @
     customerDetails_issues rt (in_customerDetails i)"

definition bookingSchema_parse :: "runtime \<Rightarrow> bookingInput \<Rightarrow> exn + bookingInput" where
  "bookingSchema_parse rt i =
     (case bookingSchema_issues rt i of
        p # ps \<Rightarrow> Inl (zodThrow rt (p # ps))
      | [] \<Rightarrow> Inr i)"

subsection \<open>Booking ledger (\<^verbatim>\<open>app/actions/bookings.ts\<close>)\<close>

definition generateBookingNumber :: "string action" where
  "generateBookingNumber w =
     (case today w of
        (year, monthIndex, day) \<Rightarrow>
          (Inr (''BK'' @ toString year
                @ padStart (toString (monthIndex + 1)) 2 (CHR ''0'')
                @ padStart (toString day) 2 (CHR ''0'')
                @ padStart (toString (random w)) 4 (CHR ''0'')), w))"

definition calculateTotalAmount ::
  "number \<Rightarrow> selectedFood list \<Rightarrow> selectedThemeSnapshot option \<Rightarrow> number" where
  "calculateTotalAmount hallBasePrice foods selTheme =
     (let foodTotal = foldl (\<lambda>sum item. jsAdd sum (jsMul (quantity item) (price item))) 0 foods;
          themePrice = orZero (map_option st_price selTheme)
      in jsAdd (jsAdd hallBasePrice foodTotal) themePrice)"

text \<open>
  The \<^verbatim>\<open>where\<close> object of the availability query of \<^verbatim>\<open>createBooking\<close>, and the
  validated input after the two \<^verbatim>\<open>setHours\<close> calls on its date: the first moves the
  date to the start of its day, the second moves that same date to the end of the day.
\<close>

definition createBooking_where :: "runtime \<Rightarrow> bookingInput \<Rightarrow> (booking \<Rightarrow> bool) \<times> bookingInput" where
  "createBooking_where rt validated =
     (let gte = setHours rt (in_eventDate validated) 0 0 0 0;
          validated1 = validated\<lparr>in_eventDate := gte\<rparr>;
          lte = setHours rt (in_eventDate validated1) 23 59 59 999;
          validated2 = validated1\<lparr>in_eventDate := lte\<rparr>
      in (\<lambda>b. hallId b = in_hallId validated2
               \<and> gte \<le> eventDate b \<and> eventDate b \<le> lte
               \<and> status b \<in> {CONFIRMED, PENDING}
               \<and> list_ex (\<lambda>s. timeSlot b = s)
                    ([in_timeSlot validated2, ''Full Day'']
                     @ (if in_timeSlot validated2 = ''Full Day''
                        then [''Morning'', ''Evening''] else [])),
          validated2))"

definition createBooking :: "runtime \<Rightarrow> string \<Rightarrow> bookingInput \<Rightarrow> booking envelope action" where
  "createBooking rt uid input =
     try_catch
       (await (fromResult (bookingSchema_parse rt input)) (\<lambda>parsed.
        case createBooking_where rt parsed of (wh, validated) \<Rightarrow>
        await (booking_findFirst wh) (\<lambda>availability.
        if availability \<noteq> None
        then return (Failure ''Hall is not available for selected date and time'')
        else
        await (hall_findUnique (in_hallId validated)) (\<lambda>found.
        case found of
          None \<Rightarrow> return (Failure ''Hall not found'')
        | Some hall \<Rightarrow>
            (let total = calculateTotalAmount (h_basePrice hall)
                           (in_selectedFoods validated) (in_selectedTheme validated)
             in
             await generateBookingNumber (\<lambda>number.
             await (booking_create
                      \<lparr>b_id = [], bookingNumber = number, userId = uid,
                       hallId = in_hallId validated,
                       eventDate = in_eventDate validated,
                       timeSlot = in_timeSlot validated,
                       guestCount = in_guestCount validated,
                       eventType = in_eventType validated,
                       selectedFoods = in_selectedFoods validated,
                       selectedTheme = in_selectedTheme validated,
                       totalAmount = total,
                       customerDetails = in_customerDetails validated,
                       specialRequests = in_specialRequests validated,
                       status = PENDING, paymentStatus = PAY_PENDING,
                       paymentId = None, b_createdAt = 0\<rparr>) (\<lambda>created.
             await (revalidatePath ''/my-bookings'') (\<lambda>_.
             await (revalidatePath ''/admin/bookings'') (\<lambda>_.
             return (Data created))))))))))
       (\<lambda>error.
          await (console_error ''Create booking error:'') (\<lambda>_.
          case error of
            Error message \<Rightarrow> return (Failure message)
          | NonError _ \<Rightarrow> return (Failure ''Failed to create booking'')))"

definition getMyBookings :: "string \<Rightarrow> booking list envelope action" where
  "getMyBookings uid =
     try_catch
       (await (booking_findMany_createdAt_desc (\<lambda>b. userId b = uid)) (\<lambda>rows.
        return (Data rows)))
       (\<lambda>error.
          await (console_error ''Get my bookings error:'') (\<lambda>_.
          return (Failure ''Failed to fetch bookings'')))"

definition getBookingById :: "string \<Rightarrow> booking envelope action" where
  "getBookingById i =
     try_catch
       (await (booking_findUnique i) (\<lambda>found.
        case found of
          None \<Rightarrow> return (Failure ''Booking not found'')
        | Some b \<Rightarrow> return (Data b)))
       (\<lambda>error.
          await (console_error ''Get booking error:'') (\<lambda>_.
          return (Failure ''Failed to fetch booking'')))"

definition getAllBookings :: "booking list envelope action" where
  "getAllBookings =
     try_catch
       (await (booking_findMany_createdAt_desc (\<lambda>b. True)) (\<lambda>rows.
        return (Data rows)))
       (\<lambda>error.
          await (console_error ''Get all bookings error:'') (\<lambda>_.
          return (Failure ''Failed to fetch bookings'')))"

definition updateBookingStatus :: "string \<Rightarrow> bookingStatus \<Rightarrow> booking envelope action" where
  "updateBookingStatus i st =
     try_catch
       (await (booking_update i
                 \<lparr>u_status = Some st, u_paymentStatus = None, u_paymentId = None,
                  u_specialRequests = None\<rparr>) (\<lambda>b.
        await (revalidatePath ''/admin/bookings'') (\<lambda>_.
        await (revalidatePath ''/my-bookings'') (\<lambda>_.
        return (Data b)))))
       (\<lambda>error.
          await (console_error ''Update booking status error:'') (\<lambda>_.
          return (Failure ''Failed to update booking status'')))"

definition updatePaymentStatus ::
  "string \<Rightarrow> paymentStatus \<Rightarrow> string option \<Rightarrow> booking envelope action" where
  "updatePaymentStatus i ps pid =
     try_catch
       (await (booking_update i
                 \<lparr>u_status = (if ps = PAID then Some CONFIRMED else None),
                  u_paymentStatus = Some ps, u_paymentId = pid,
                  u_specialRequests = None\<rparr>) (\<lambda>b.
        await (revalidatePath ''/admin/bookings'') (\<lambda>_.
        await (revalidatePath ''/my-bookings'') (\<lambda>_.
        return (Data b)))))
       (\<lambda>error.
          await (console_error ''Update payment status error:'') (\<lambda>_.
          return (Failure ''Failed to update payment status'')))"

definition cancelBooking :: "string \<Rightarrow> string option \<Rightarrow> booking envelope action" where
  "cancelBooking i reason =
     try_catch
       (await (booking_update i
                 \<lparr>u_status = Some CANCELLED, u_paymentStatus = None, u_paymentId = None,
                  u_specialRequests =
                    Some (case reason of
                            None \<Rightarrow> ''Cancelled by user''
                          | Some r \<Rightarrow> (if r = [] then ''Cancelled by user''
                                       else r @ '' (Cancellation reason)''))\<rparr>) (\<lambda>b.
        await (revalidatePath ''/admin/bookings'') (\<lambda>_.
        await (revalidatePath ''/my-bookings'') (\<lambda>_.
        return (Data b)))))
       (\<lambda>error.
          await (console_error ''Cancel booking error:'') (\<lambda>_.
          return (Failure ''Failed to cancel booking'')))"

record bookingStats =
  totalBookings :: nat
  confirmedBookings :: nat
  pendingBookings :: nat
  totalRevenue :: number

definition getBookingStats :: "bookingStats envelope action" where
  "getBookingStats =
     try_catch
       (await (promise_all (booking_count (\<lambda>b. True))
                (promise_all (booking_count (\<lambda>b. status b = CONFIRMED))
                  (promise_all (booking_count (\<lambda>b. status b = PENDING))
                    (booking_aggregate_sum_totalAmount (\<lambda>b. paymentStatus b = PAID)))))
          (\<lambda>(total, confirmed, pending, revenueSum).
             return (Data \<lparr>totalBookings = total, confirmedBookings = confirmed,
                           pendingBookings = pending,
                           totalRevenue = orZero revenueSum\<rparr>)))
       (\<lambda>error.
          await (console_error ''Get booking stats error:'') (\<lambda>_.
          return (Failure ''Failed to fetch statistics'')))"

subsection \<open>Hall directory (\<^verbatim>\<open>app/actions/halls.ts\<close>)\<close>

text \<open>
  \<^verbatim>\<open>findUnique\<close> with \<^verbatim>\<open>include: { bookings: { where, select } }\<close>: the hall together
  with the date and slot of those of its bookings that pass the filter.
\<close>

definition hall_findUnique_include_bookings ::
  "string \<Rightarrow> (booking \<Rightarrow> bool) \<Rightarrow> (hall \<times> (int \<times> string) list) option action" where
  "hall_findUnique_include_bookings i wh =
     prismaCall (\<lambda>w.
       (Inr (map_option
               (\<lambda>h. (h, map (\<lambda>b. (eventDate b, timeSlot b))
                            (filter (\<lambda>b. hallId b = h_id h \<and> wh b) (bookings w))))
               (find (\<lambda>h. h_id h = i) (halls w))), w))"

definition getActiveHalls :: "hall list envelope action" where
  "getActiveHalls =
     try_catch
       (await (hall_findMany_createdAt_desc (\<lambda>h. h_isActive h = True)) (\<lambda>rows.
        return (Data rows)))
       (\<lambda>error.
          await (console_error ''Get halls error:'') (\<lambda>_.
          return (Failure ''Failed to fetch halls'')))"

definition getHallById :: "string \<Rightarrow> (hall \<times> (int \<times> string) list) envelope action" where
  "getHallById i =
     try_catch
       (await (hall_findUnique_include_bookings i (\<lambda>b. status b \<in> {CONFIRMED, PENDING}))
          (\<lambda>found.
             case found of
               None \<Rightarrow> return (Failure ''Hall not found'')
             | Some h \<Rightarrow> return (Data h)))
       (\<lambda>error.
          await (console_error ''Get hall error:'') (\<lambda>_.
          return (Failure ''Failed to fetch hall details'')))"

definition getAllHalls :: "hall list envelope action" where
  "getAllHalls =
     try_catch
       (await (hall_findMany_createdAt_desc (\<lambda>h. True)) (\<lambda>rows.
        return (Data rows)))
       (\<lambda>error.
          await (console_error ''Get all halls error:'') (\<lambda>_.
          return (Failure ''Failed to fetch halls'')))"

definition createHall :: "runtime \<Rightarrow> hallInput \<Rightarrow> hall envelope action" where
  "createHall rt input =
     try_catch
       (await (fromResult (hallSchema_parse rt input)) (\<lambda>validated.
        await (hall_create validated) (\<lambda>created.
        await (revalidatePath ''/admin/halls'') (\<lambda>_.
        await (revalidatePath ''/halls'') (\<lambda>_.
        return (Data created))))))
       (\<lambda>error.
          await (console_error ''Create hall error:'') (\<lambda>_.
          case error of
            Error message \<Rightarrow> return (Failure message)
          | NonError _ \<Rightarrow> return (Failure ''Failed to create hall'')))"

definition updateHall :: "runtime \<Rightarrow> string \<Rightarrow> hallInput \<Rightarrow> hall envelope action" where
  "updateHall rt i input =
     try_catch
       (await (fromResult (hallSchema_partial_parse rt input)) (\<lambda>validated.
        await (hall_update i validated) (\<lambda>updated.
        await (revalidatePath ''/admin/halls'') (\<lambda>_.
        await (revalidatePath ''/halls'') (\<lambda>_.
        await (revalidatePath (''/halls/'' @ i)) (\<lambda>_.
        return (Data updated)))))))
       (\<lambda>error.
          await (console_error ''Update hall error:'') (\<lambda>_.
          case error of
            Error message \<Rightarrow> return (Failure message)
          | NonError _ \<Rightarrow> return (Failure ''Failed to update hall'')))"

definition deleteHall :: "string \<Rightarrow> unit envelope action" where
  "deleteHall i =
     try_catch
       (await (booking_count (\<lambda>b. hallId b = i \<and> status b \<in> {CONFIRMED, PENDING}))
          (\<lambda>bookingsCount.
             if bookingsCount > 0
             then return (Failure
                    ''Cannot delete hall with active bookings. Mark as inactive instead.'')
             else
             await (hall_delete i) (\<lambda>_.
             await (revalidatePath ''/admin/halls'') (\<lambda>_.
             await (revalidatePath ''/halls'') (\<lambda>_.
             return (Message ''Hall deleted successfully''))))))
       (\<lambda>error.
          await (console_error ''Delete hall error:'') (\<lambda>_.
          return (Failure ''Failed to delete hall'')))"

definition toggleHallStatus :: "string \<Rightarrow> hall envelope action" where
  "toggleHallStatus i =
     try_catch
       (await (hall_findUnique i) (\<lambda>found.
        case found of
          None \<Rightarrow> return (Failure ''Hall not found'')
        | Some h \<Rightarrow>
            await (hall_update i
                     \<lparr>hi_name = None, hi_description = None, hi_capacity = None,
                      hi_basePrice = None, hi_images = None, hi_amenities = None,
                      hi_isActive = Some (\<not> h_isActive h)\<rparr>) (\<lambda>updated.
            await (revalidatePath ''/admin/halls'') (\<lambda>_.
            await (revalidatePath ''/halls'') (\<lambda>_.
            return (Data updated))))))
       (\<lambda>error.
          await (console_error ''Toggle hall status error:'') (\<lambda>_.
          return (Failure ''Failed to update hall status'')))"

text \<open>
  The \<^verbatim>\<open>where\<close> object of the availability query of \<^verbatim>\<open>checkHallAvailability\<close>: the
  bounds of the day are taken on two copies of the date.
\<close>

definition checkHallAvailability_where ::
  "runtime \<Rightarrow> string \<Rightarrow> int \<Rightarrow> string \<Rightarrow> booking \<Rightarrow> bool" where
  "checkHallAvailability_where rt hid date slot =
     (let startOfDay = setHours rt date 0 0 0 0;
          endOfDay = setHours rt date 23 59 59 999
      in (\<lambda>b. hallId b = hid
               \<and> startOfDay \<le> eventDate b \<and> eventDate b \<le> endOfDay
               \<and> status b \<in> {CONFIRMED, PENDING}
               \<and> list_ex (\<lambda>s. timeSlot b = s)
                    ([slot, ''Full Day'']
                     @ (if slot = ''Full Day'' then [''Morning'', ''Evening''] else []))))"

definition checkHallAvailability :: "runtime \<Rightarrow> string \<Rightarrow> int \<Rightarrow> string \<Rightarrow> unit envelope action" where
  "checkHallAvailability rt hid date slot =
     try_catch
       (await (booking_findFirst (checkHallAvailability_where rt hid date slot))
          (\<lambda>existingBooking.
             return (Availability (existingBooking = None)
                       (if existingBooking \<noteq> None
                        then ''Hall is already booked for this date and time''
                        else ''Hall is available''))))
       (\<lambda>error.
          await (console_error ''Check availability error:'') (\<lambda>_.
          return (Failure ''Failed to check availability'')))"

subsection \<open>Food catalog (\<^verbatim>\<open>app/actions/food-items.ts\<close>)\<close>

definition getAvailableFoodItems :: "foodItem list envelope action" where
  "getAvailableFoodItems =
     try_catch
       (await (foodItem_findMany_category_name_asc (\<lambda>x. f_isAvailable x = True)) (\<lambda>rows.
        return (Data rows)))
       (\<lambda>error.
          await (console_error ''Get food items error:'') (\<lambda>_.
          return (Failure ''Failed to fetch food items'')))"

definition getAllFoodItems :: "foodItem list envelope action" where
  "getAllFoodItems =
     try_catch
       (await (foodItem_findMany_category_name_asc (\<lambda>x. True)) (\<lambda>rows.
        return (Data rows)))
       (\<lambda>error.
          await (console_error ''Get all food items error:'') (\<lambda>_.
          return (Failure ''Failed to fetch food items'')))"

definition getFoodItemsByCategory :: "string \<Rightarrow> foodItem list envelope action" where
  "getFoodItemsByCategory category =
     try_catch
       (await (foodItem_findMany_name_asc
                 (\<lambda>x. f_category x = category \<and> f_isAvailable x = True)) (\<lambda>rows.
        return (Data rows)))
       (\<lambda>error.
          await (console_error ''Get food by category error:'') (\<lambda>_.
          return (Failure ''Failed to fetch food items'')))"

definition createFoodItem :: "runtime \<Rightarrow> foodItemInput \<Rightarrow> foodItem envelope action" where
  "createFoodItem rt input =
     try_catch
       (await (fromResult (foodItemSchema_parse rt input)) (\<lambda>validated.
        await (foodItem_create validated) (\<lambda>created.
        await (revalidatePath ''/admin/food-items'') (\<lambda>_.
        await (revalidatePath ''/booking'') (\<lambda>_.
        return (Data created))))))
       (\<lambda>error.
          await (console_error ''Create food item error:'') (\<lambda>_.
          case error of
            Error message \<Rightarrow> return (Failure message)
          | NonError _ \<Rightarrow> return (Failure ''Failed to create food item'')))"

definition updateFoodItem :: "runtime \<Rightarrow> string \<Rightarrow> foodItemInput \<Rightarrow> foodItem envelope action" where
  "updateFoodItem rt i input =
     try_catch
       (await (fromResult (foodItemSchema_partial_parse rt input)) (\<lambda>validated.
        await (foodItem_update i validated) (\<lambda>updated.
        await (revalidatePath ''/admin/food-items'') (\<lambda>_.
        await (revalidatePath ''/booking'') (\<lambda>_.
        return (Data updated))))))
       (\<lambda>error.
          await (console_error ''Update food item error:'') (\<lambda>_.
          case error of
            Error message \<Rightarrow> return (Failure message)
          | NonError _ \<Rightarrow> return (Failure ''Failed to update food item'')))"

definition deleteFoodItem :: "string \<Rightarrow> unit envelope action" where
  "deleteFoodItem i =
     try_catch
       (await (foodItem_delete i) (\<lambda>_.
        await (revalidatePath ''/admin/food-items'') (\<lambda>_.
        await (revalidatePath ''/booking'') (\<lambda>_.
        return (Message ''Food item deleted successfully'')))))
       (\<lambda>error.
          await (console_error ''Delete food item error:'') (\<lambda>_.
          return (Failure ''Failed to delete food item'')))"

definition toggleFoodItemAvailability :: "string \<Rightarrow> foodItem envelope action" where
  "toggleFoodItemAvailability i =
     try_catch
       (await (foodItem_findUnique i) (\<lambda>found.
        case found of
          None \<Rightarrow> return (Failure ''Food item not found'')
        | Some item \<Rightarrow>
            await (foodItem_update i
                     \<lparr>fi_name = None, fi_category = None, fi_price = None, fi_isVeg = None,
                      fi_description = None, fi_image = None,
                      fi_isAvailable = Some (\<not> f_isAvailable item)\<rparr>) (\<lambda>updated.
            await (revalidatePath ''/admin/food-items'') (\<lambda>_.
            await (revalidatePath ''/booking'') (\<lambda>_.
            return (Data updated))))))
       (\<lambda>error.
          await (console_error ''Toggle availability error:'') (\<lambda>_.
          return (Failure ''Failed to update availability'')))"

subsection \<open>Theme catalog (\<^verbatim>\<open>app/actions/themes.ts\<close>)\<close>

definition getAvailableThemes :: "theme list envelope action" where
  "getAvailableThemes =
     try_catch
       (await (theme_findMany_name_asc (\<lambda>x. t_isAvailable x = True)) (\<lambda>rows.
        return (Data rows)))
       (\<lambda>error.
          await (console_error ''Get themes error:'') (\<lambda>_.
          return (Failure ''Failed to fetch themes'')))"

definition getAllThemes :: "theme list envelope action" where
  "getAllThemes =
     try_catch
       (await (theme_findMany_name_asc (\<lambda>x. True)) (\<lambda>rows.
        return (Data rows)))
       (\<lambda>error.
          await (console_error ''Get all themes error:'') (\<lambda>_.
          return (Failure ''Failed to fetch themes'')))"

definition getThemeById :: "string \<Rightarrow> theme envelope action" where
  "getThemeById i =
     try_catch
       (await (theme_findUnique i) (\<lambda>found.
        case found of
          None \<Rightarrow> return (Failure ''Theme not found'')
        | Some x \<Rightarrow> return (Data x)))
       (\<lambda>error.
          await (console_error ''Get theme error:'') (\<lambda>_.
          return (Failure ''Failed to fetch theme'')))"

definition createTheme :: "runtime \<Rightarrow> themeInput \<Rightarrow> theme envelope action" where
  "createTheme rt input =
     try_catch
       (await (fromResult (themeSchema_parse rt input)) (\<lambda>validated.
        await (theme_create validated) (\<lambda>created.
        await (revalidatePath ''/admin/themes'') (\<lambda>_.
        await (revalidatePath ''/booking'') (\<lambda>_.
        return (Data created))))))
       (\<lambda>error.
          await (console_error ''Create theme error:'') (\<lambda>_.
          case error of
            Error message \<Rightarrow> return (Failure message)
          | NonError _ \<Rightarrow> return (Failure ''Failed to create theme'')))"

definition updateTheme :: "runtime \<Rightarrow> string \<Rightarrow> themeInput \<Rightarrow> theme envelope action" where
  "updateTheme rt i input =
     try_catch
       (await (fromResult (themeSchema_partial_parse rt input)) (\<lambda>validated.
        await (theme_update i validated) (\<lambda>updated.
        await (revalidatePath ''/admin/themes'') (\<lambda>_.
        await (revalidatePath ''/booking'') (\<lambda>_.
        return (Data updated))))))
       (\<lambda>error.
          await (console_error ''Update theme error:'') (\<lambda>_.
          case error of
            Error message \<Rightarrow> return (Failure message)
          | NonError _ \<Rightarrow> return (Failure ''Failed to update theme'')))"

definition deleteTheme :: "string \<Rightarrow> unit envelope action" where
  "deleteTheme i =
     try_catch
       (await (theme_delete i) (\<lambda>_.
        await (revalidatePath ''/admin/themes'') (\<lambda>_.
        await (revalidatePath ''/booking'') (\<lambda>_.
        return (Message ''Theme deleted successfully'')))))
       (\<lambda>error.
          await (console_error ''Delete theme error:'') (\<lambda>_.
          return (Failure ''Failed to delete theme'')))"

definition toggleThemeAvailability :: "string \<Rightarrow> theme envelope action" where
  "toggleThemeAvailability i =
     try_catch
       (await (theme_findUnique i) (\<lambda>found.
        case found of
          None \<Rightarrow> return (Failure ''Theme not found'')
        | Some x \<Rightarrow>
            await (theme_update i
                     \<lparr>ti_name = None, ti_description = None, ti_price = None,
                      ti_images = None,
                      ti_isAvailable = Some (\<not> t_isAvailable x)\<rparr>) (\<lambda>updated.
            await (revalidatePath ''/admin/themes'') (\<lambda>_.
            await (revalidatePath ''/booking'') (\<lambda>_.
            return (Data updated))))))
       (\<lambda>error.
          await (console_error ''Toggle availability error:'') (\<lambda>_.
          return (Failure ''Failed to update availability'')))"

subsection \<open>Development helpers (\<^verbatim>\<open>app/actions/test.ts\<close>)\<close>

text \<open>
  The two exported functions of this file have no \<^verbatim>\<open>try\<close>: they return the rows
  themselves, and whatever the store throws leaves them as it is.
\<close>

definition console_log :: "string \<Rightarrow> unit action" where
  "console_log label w = (Inr (), w\<lparr>console := console w @ [label]\<rparr>)"

definition createTestHall :: "hall action" where
  "createTestHall =
     await (hall_create
              \<lparr>h_id = [], h_name = ''Grand Ballroom'',
               h_description = Some ''Spacious hall for 500+ guests'',
               h_capacity = 500, h_basePrice = 50000,
               h_images = [''https://example.com/image1.jpg'',
                           ''https://example.com/image2.jpg''],
               h_amenities = [''AC'', ''Parking'', ''Stage'', ''Sound System''],
               h_isActive = True, h_createdAt = 0\<rparr>) (\<lambda>created.
     await (console_log ''Created hall:'') (\<lambda>_.
     return created))"

definition test_getAllHalls :: "hall list action" where
  "test_getAllHalls =
     await (hall_findMany_createdAt_desc (\<lambda>h. h_isActive h = True)) (\<lambda>rows.
     return rows)"

subsection \<open>The vocabulary of the specification\<close>

text \<open>
  The definitions of this subsection follow the words of the specification, not the
  code; the theorems below compare the code with them.

  The local calendar day of a date, and its time of day in milliseconds.
\<close>

definition localDay :: "runtime \<Rightarrow> int \<Rightarrow> int" where
  "localDay rt t = LocalTime rt t div msPerDay"

definition timeOfDay :: "runtime \<Rightarrow> int \<Rightarrow> int" where
  "timeOfDay rt t = LocalTime rt t mod msPerDay"

text \<open>
  What a host's clock can be expected to do on the day of a date: the start of day that
  \<^verbatim>\<open>setHours(0, 0, 0, 0)\<close> computes lies on that day; the end of day that
  \<^verbatim>\<open>setHours(23, 59, 59, 999)\<close> computes shows 23:59:59.999 of that day; an instant lies
  between the two exactly when it is on that day.
\<close>

definition startOfDayOnDay :: "runtime \<Rightarrow> int \<Rightarrow> bool" where
  "startOfDayOnDay rt date = (localDay rt (setHours rt date 0 0 0 0) = localDay rt date)"

definition endOfDayKept :: "runtime \<Rightarrow> int \<Rightarrow> bool" where
  "endOfDayKept rt date =
     (LocalTime rt (setHours rt date 23 59 59 999)
        = msPerDay * localDay rt date + (msPerDay - 1))"

definition dayBoundsDelimit :: "runtime \<Rightarrow> int \<Rightarrow> int \<Rightarrow> bool" where
  "dayBoundsDelimit rt date t =
     ((setHours rt date 0 0 0 0 \<le> t \<and> t \<le> setHours rt date 23 59 59 999)
        = (localDay rt t = localDay rt date))"

text \<open>
  The total amount of the specification, in exact arithmetic: base price plus the sum of
  quantity times price over the selected foods plus the theme price, or 0 without theme.
\<close>

definition exactTotal :: "rat \<Rightarrow> selectedFood list \<Rightarrow> selectedThemeSnapshot option \<Rightarrow> rat" where
  "exactTotal base foods selTheme =
     base + sum_list (map (\<lambda>f. quantity f * price f) foods)
       + (case selTheme of None \<Rightarrow> 0 | Some t \<Rightarrow> st_price t)"

text \<open>
  Whole amounts whose magnitudes add up to less than \<open>2 ^ 53\<close>: every intermediate result
  of the total is then a whole number that a double holds exactly.
\<close>

definition isInteger :: "rat \<Rightarrow> bool" where
  "isInteger x = (of_int \<lfloor>x\<rfloor> = x)"

definition safeAmounts :: "rat \<Rightarrow> selectedFood list \<Rightarrow> selectedThemeSnapshot option \<Rightarrow> bool" where
  "safeAmounts base foods selTheme =
     (isInteger base
      \<and> list_all (\<lambda>f. isInteger (quantity f) \<and> isInteger (price f)) foods
      \<and> (case selTheme of None \<Rightarrow> True | Some t \<Rightarrow> isInteger (st_price t))
      \<and> \<bar>base\<bar> + sum_list (map (\<lambda>f. \<bar>quantity f * price f\<bar>) foods)
          + (case selTheme of None \<Rightarrow> 0 | Some t \<Rightarrow> \<bar>st_price t\<bar>) < 2 ^ 53)"

text \<open>An active booking is one with status CONFIRMED or PENDING.\<close>

definition activeBooking :: "booking \<Rightarrow> bool" where
  "activeBooking b = (status b = CONFIRMED \<or> status b = PENDING)"

text \<open>
  ``Full Day'' conflicts with any slot that day; ``Morning'' and ``Evening'' conflict
  only with the same slot or ``Full Day''.
\<close>

definition slotsOverlap :: "string \<Rightarrow> string \<Rightarrow> bool" where
  "slotsOverlap requested existing =
     (if requested = ''Full Day'' then existing \<in> set timeSlots
      else (existing = requested \<or> existing = ''Full Day''))"

text \<open>
  A booking overlaps a request for a hall, a date and a slot when it is an active
  booking of that hall on the same calendar day with an overlapping slot.
\<close>

definition overlaps :: "runtime \<Rightarrow> string \<Rightarrow> int \<Rightarrow> string \<Rightarrow> booking \<Rightarrow> bool" where
  "overlaps rt hid date slot b =
     (hallId b = hid \<and> activeBooking b
      \<and> localDay rt (eventDate b) = localDay rt date
      \<and> slotsOverlap slot (timeSlot b))"

text \<open>An action returns a result envelope on a world when it does not throw there.\<close>

definition returnsEnvelope :: "'a envelope action \<Rightarrow> world \<Rightarrow> bool" where
  "returnsEnvelope act w = (case fst (act w) of Inl e \<Rightarrow> False | Inr r \<Rightarrow> True)"

subsection \<open>A concrete scenario\<close>

text \<open>
  Hall A with base price 50000, a customer request with two portions of a dish at 200
  and a theme at 3000, a store that is up, and a host five and a half hours east of UTC.
\<close>

definition scenarioRuntime :: runtime where
  "scenarioRuntime =
     \<lparr>localTZA = fixedZone 19800000, schemaLoadedAt = 1790000000000,
      isUrl = (\<lambda>u. take 4 u = ''http''),
      isEmail = (\<lambda>e. CHR ''@'' \<in> set e),
      zodErrorMessage = concat\<rparr>"

definition hallA :: hall where
  "hallA =
     \<lparr>h_id = ''hall-a'', h_name = ''Hall A'', h_description = None, h_capacity = 500,
      h_basePrice = 50000, h_images = [''https://example.com/a.jpg''], h_amenities = [],
      h_isActive = True, h_createdAt = 1780000000000\<rparr>"

definition scenarioWorld :: world where
  "scenarioWorld =
     \<lparr>halls = [hallA], foodItems = [], themes = [], bookings = [],
      storeFault = (\<lambda>k. None), storeCalls = 0,
      newId = (\<lambda>k. ''row-'' @ toString k),
      now = 1795000000000, today = (2026, 10, 3), random = 42,
      revalidated = [], console = []\<rparr>"

definition scenarioInput :: bookingInput where
  "scenarioInput =
     \<lparr>in_hallId = ''hall-a'', in_eventDate = 1800000000000, in_timeSlot = ''Full Day'',
      in_guestCount = 100, in_eventType = ''Wedding'',
      in_selectedFoods = [\<lparr>sf_id = ''food-1'', sf_name = ''Paneer'', quantity = 2, price = 200\<rparr>],
      in_selectedTheme = Some \<lparr>st_id = ''theme-1'', st_name = ''Royal'', st_price = 3000\<rparr>,
      in_customerDetails =
        \<lparr>c_name = ''Asha'', c_email = ''asha@example.com'', c_phone = ''9876543210'',
         c_address = ''12 Lake Road, Pune''\<rparr>,
      in_specialRequests = None\<rparr>"

text \<open>A booking of Hall A in the store, with a given status.\<close>

definition bookedRow :: "bookingStatus \<Rightarrow> booking" where
  "bookedRow st =
     \<lparr>b_id = ''row-7'', bookingNumber = ''BK202611030042'', userId = ''user-1'',
      hallId = ''hall-a'', eventDate = 1800000000000, timeSlot = ''Full Day'',
      guestCount = 100, eventType = ''Wedding'', selectedFoods = [], selectedTheme = None,
      totalAmount = 50000,
      customerDetails =
        \<lparr>c_name = ''Asha'', c_email = ''asha@example.com'', c_phone = ''9876543210'',
         c_address = ''12 Lake Road, Pune''\<rparr>,
      specialRequests = None, status = st, paymentStatus = PAY_PENDING,
      paymentId = None, b_createdAt = 1795000000000\<rparr>"

text \<open>A dish and a theme of the catalogs.\<close>

definition paneer :: foodItem where
  "paneer =
     \<lparr>f_id = ''food-1'', f_name = ''Paneer'', f_category = ''Main Course'', f_price = 200,
      f_isVeg = True, f_description = None, f_image = None, f_isAvailable = True\<rparr>"

definition royal :: theme where
  "royal =
     \<lparr>t_id = ''theme-1'', t_name = ''Royal'', t_description = None, t_price = 3000,
      t_images = [''https://example.com/royal.jpg''], t_isAvailable = False\<rparr>"

definition cateringWorld :: world where
  "cateringWorld = scenarioWorld\<lparr>foodItems := [paneer], themes := [royal]\<rparr>"

text \<open>The scenario with a store that refuses every call.\<close>

definition storeDown :: world where
  "storeDown = scenarioWorld\<lparr>storeFault := (\<lambda>k. Some (Error ''Connection refused''))\<rparr>"

text \<open>
  A host in the zone America/New\_York around 7 November 2027, when its clocks go back
  from UTC-4 to UTC-5 at 06:00 UTC: a request at 00:30 of that day, which has 25 hours,
  and a pending booking stored at 23:30 of the same day.
\<close>

definition newYorkRuntime :: runtime where
  "newYorkRuntime =
     scenarioRuntime\<lparr>localTZA := zoneWithChange (- 14400000) 1825567200000 (- 18000000)\<rparr>"

definition newYorkInput :: bookingInput where
  "newYorkInput = scenarioInput\<lparr>in_eventDate := 1825561800000, in_timeSlot := ''Morning''\<rparr>"

definition newYorkLateRow :: booking where
  "newYorkLateRow = (bookedRow PENDING)\<lparr>eventDate := 1825648200000\<rparr>"

text \<open>
  A host in the zone America/Nuuk around 27 March 2027, a Saturday: at 01:00 UTC of the
  Sunday, which is 23:00 of the Saturday, its clocks go forward from UTC-2 to UTC-1, so
  that the Saturday has no local time from 23:00 on. A request at noon of the Saturday,
  and a pending booking stored at 00:30 of the Sunday.
\<close>

definition nuukRuntime :: runtime where
  "nuukRuntime =
     scenarioRuntime\<lparr>localTZA := zoneWithChange (- 7200000) 1806195600000 (- 3600000)\<rparr>"

definition nuukInput :: bookingInput where
  "nuukInput = scenarioInput\<lparr>in_eventDate := 1806156000000, in_timeSlot := ''Morning''\<rparr>"

definition nuukSundayRow :: booking where
  "nuukSundayRow = (bookedRow PENDING)\<lparr>eventDate := 1806197400000\<rparr>"

text \<open>
  A request with seven portions at 585.36, the price being the double nearest to that
  decimal, and no theme.
\<close>

definition fractionalInput :: bookingInput where
  "fractionalInput =
     scenarioInput
       \<lparr>in_selectedFoods :=
          [\<lparr>sf_id = ''food-2'', sf_name = ''Thali'', quantity = 7,
            price = 5148881011479675 / 8796093022208\<rparr>],
        in_selectedTheme := None\<rparr>"

section \<open>Properties\<close>

subsection \<open>Basic facts\<close>

lemmas action_defs = return_def await_def try_catch_def fromResult_def
  revalidatePath_def console_error_def prismaCall_def

lemmas scenario_defs = scenarioRuntime_def scenarioWorld_def scenarioInput_def hallA_def

lemmas createBooking_eval = createBooking_def booking_findFirst_def hall_findUnique_def
  booking_create_def generateBookingNumber_def action_defs Let_def
  bookingSchema_parse_def bookingSchema_issues_def customerDetails_issues_def issue_def
  createBooking_where_def timeSlots_def padStart_def toString.simps zodThrow_def

lemmas booking_valid_defs = bookingSchema_issues_def customerDetails_issues_def issue_def
  timeSlots_def scenario_defs

lemmas host_eval = setHours_def LocalTime_def UTC_def fixedZone_def zoneWithChange_def
  msPerDay_def

subsection \<open>Days on the host\<close>

lemma msPerDay_pos: "0 < msPerDay"
  by (simp add: msPerDay_def)

lemma day_range:
  fixes D q E :: int
  assumes "0 < D"
  shows "(D * q \<le> E \<and> E \<le> D * q + (D - 1)) \<longleftrightarrow> E div D = q"
proof
  assume h: "D * q \<le> E \<and> E \<le> D * q + (D - 1)"
  have "E = D * q + (E - D * q)" by simp
  moreover have "0 \<le> E - D * q" using h by simp
  moreover have "E - D * q < D" using h by simp
  ultimately show "E div D = q" by (rule int_div_pos_eq)
next
  assume h: "E div D = q"
  have e: "E = D * (E div D) + E mod D" by simp
  have "0 \<le> E mod D" "E mod D < D" using assms by simp_all
  with e h show "D * q \<le> E \<and> E \<le> D * q + (D - 1)" by auto
qed

lemma day_end_div:
  fixes D q :: int
  assumes "0 < D"
  shows "(D * q + (D - 1)) div D = q"
  using day_range [OF assms, of q "D * q + (D - 1)"] assms by simp

lemma day_end_mod:
  fixes D q :: int
  assumes "0 < D"
  shows "(D * q + (D - 1)) mod D = D - 1"
proof -
  have "(D * q + (D - 1)) mod D = (D * q + (D - 1)) - D * ((D * q + (D - 1)) div D)"
    by (rule minus_mult_div_eq_mod [symmetric])
  also have "\<dots> = D - 1"
    by (simp add: day_end_div [OF assms])
  finally show ?thesis .
qed

lemma day_shift_div:
  fixes D q j :: int
  assumes "0 < D" and "0 \<le> j" and "j < D"
  shows "(D * q + j) div D = q"
  using day_range [OF assms(1), of q "D * q + j"] assms by simp

lemma day_start_multiple: "msPerDay * localDay rt t \<le> LocalTime rt t"
proof -
  have "LocalTime rt t = msPerDay * (LocalTime rt t div msPerDay) + LocalTime rt t mod msPerDay"
    by simp
  moreover have "0 \<le> LocalTime rt t mod msPerDay"
    using msPerDay_pos by simp
  ultimately show ?thesis
    unfolding localDay_def by linarith
qed

text \<open>The two \<^verbatim>\<open>setHours\<close> calls of the actions, in terms of the local day.\<close>

lemma setHours_start: "setHours rt t 0 0 0 0 = UTC rt (msPerDay * localDay rt t)"
  by (simp add: setHours_def localDay_def)

lemma setHours_end:
  "setHours rt t 23 59 59 999 = UTC rt (msPerDay * localDay rt t + (msPerDay - 1))"
proof -
  have "((23 * 60 + 59) * 60 + 59) * 1000 + 999 = msPerDay - 1"
    by (simp add: msPerDay_def)
  then show ?thesis
    by (simp only: setHours_def localDay_def)
qed

lemma setHours_end_after_start:
  assumes "startOfDayOnDay rt t"
  shows "setHours rt (setHours rt t 0 0 0 0) 23 59 59 999 = setHours rt t 23 59 59 999"
  using assms by (simp only: setHours_end startOfDayOnDay_def)

lemma localDay_setHours_end:
  assumes "endOfDayKept rt t"
  shows "localDay rt (setHours rt t 23 59 59 999) = localDay rt t"
  using assms
  by (simp only: localDay_def [of rt "setHours rt t 23 59 59 999"] endOfDayKept_def
        day_end_div [OF msPerDay_pos])

lemma timeOfDay_setHours_end:
  assumes "endOfDayKept rt t"
  shows "timeOfDay rt (setHours rt t 23 59 59 999) = msPerDay - 1"
  using assms
  by (simp only: timeOfDay_def endOfDayKept_def day_end_mod [OF msPerDay_pos])

text \<open>A host with a fixed offset behaves as expected on every day.\<close>

lemma fixedZone_times:
  assumes "localTZA rt = fixedZone offset"
  shows "LocalTime rt t = t + offset" and "UTC rt t = t - offset"
  using assms by (simp_all add: LocalTime_def UTC_def fixedZone_def)

lemma fixedZone_startOfDayOnDay:
  assumes "localTZA rt = fixedZone offset"
  shows "startOfDayOnDay rt t"
proof -
  have "LocalTime rt (UTC rt (msPerDay * localDay rt t)) = msPerDay * localDay rt t"
    by (simp add: fixedZone_times [OF assms])
  then have "localDay rt (UTC rt (msPerDay * localDay rt t)) = localDay rt t"
    using msPerDay_pos
    by (simp add: localDay_def [of rt "UTC rt (msPerDay * localDay rt t)"])
  then show ?thesis
    by (simp only: startOfDayOnDay_def setHours_start)
qed

lemma fixedZone_endOfDayKept:
  assumes "localTZA rt = fixedZone offset"
  shows "endOfDayKept rt t"
  by (simp add: endOfDayKept_def setHours_end fixedZone_times [OF assms])

lemma fixedZone_dayBoundsDelimit:
  assumes "localTZA rt = fixedZone offset"
  shows "dayBoundsDelimit rt date t"
proof -
  have "(msPerDay * localDay rt date \<le> t + offset
          \<and> t + offset \<le> msPerDay * localDay rt date + (msPerDay - 1))
        \<longleftrightarrow> (t + offset) div msPerDay = localDay rt date"
    by (rule day_range [OF msPerDay_pos])
  then show ?thesis
    by (auto simp: dayBoundsDelimit_def setHours_start setHours_end localDay_def [of rt t]
          fixedZone_times [OF assms])
qed

text \<open>
  On a host whose clocks change once, by less than a day when they go forward, the
  start of day that \<^verbatim>\<open>setHours\<close> computes is on the day.
\<close>

lemma zoneWithChange_startOfDayOnDay:
  assumes z: "localTZA rt = zoneWithChange o1 c o2"
    and shift: "o2 - o1 < msPerDay"
  shows "startOfDayOnDay rt t"
proof -
  let ?s = "msPerDay * localDay rt t"
  let ?u = "UTC rt ?s"
  have day_s: "?s div msPerDay = localDay rt t"
    using msPerDay_pos by simp
  have "LocalTime rt ?u div msPerDay = localDay rt t"
  proof (cases "?s < c + max o1 o2")
    case True
    then have u: "?u = ?s - o1"
      by (simp add: UTC_def z zoneWithChange_def)
    show ?thesis
    proof (cases "?u < c")
      case True
      then have "LocalTime rt ?u = ?s"
        by (simp add: LocalTime_def z zoneWithChange_def u)
      then show ?thesis using day_s by simp
    next
      case False
      then have l: "LocalTime rt ?u = ?s + (o2 - o1)"
        by (simp add: LocalTime_def z zoneWithChange_def u)
      from False u have "c + o1 \<le> ?s" by simp
      with True have "0 \<le> o2 - o1" by simp
      then show ?thesis
        unfolding l using day_shift_div [OF msPerDay_pos _ shift, of "localDay rt t"] by simp
    qed
  next
    case False
    then have u: "?u = ?s - o2"
      by (simp add: UTC_def z zoneWithChange_def)
    from False have "\<not> ?u < c" unfolding u by simp
    then have "LocalTime rt ?u = ?s"
      by (simp add: LocalTime_def z zoneWithChange_def u)
    then show ?thesis using day_s by simp
  qed
  then show ?thesis
    by (simp only: startOfDayOnDay_def setHours_start localDay_def [of rt ?u])
qed


text \<open>
  On such a host the day bounds delimit the day, and the end of day is kept, on every
  day whose bounds the change does not straddle: the local times that the change skips
  or repeats lie before the day, after it, or inside it.
\<close>

lemma zoneWithChange_times:
  assumes "localTZA rt = zoneWithChange o1 c o2"
  shows "LocalTime rt t = t + (if t < c then o1 else o2)"
    and "UTC rt t = t - (if t < c + max o1 o2 then o1 else o2)"
  using assms by (simp_all add: LocalTime_def UTC_def zoneWithChange_def)

lemma local_day_cases:
  "(localDay rt t = q)
     = (msPerDay * q \<le> LocalTime rt t \<and> LocalTime rt t \<le> msPerDay * q + (msPerDay - 1))"
  unfolding localDay_def by (rule day_range [OF msPerDay_pos, symmetric])

lemma zoneWithChange_dayBoundsDelimit:
  assumes z: "localTZA rt = zoneWithChange o1 c o2"
    and away: "c + max o1 o2 \<le> msPerDay * localDay rt date
               \<or> msPerDay * localDay rt date + (msPerDay - 1) < c + min o1 o2
               \<or> (msPerDay * localDay rt date \<le> c + min o1 o2
                  \<and> c + max o1 o2 \<le> msPerDay * localDay rt date + (msPerDay - 1))"
  shows "dayBoundsDelimit rt date t"
    and "endOfDayKept rt date"
proof -
  have D: "0 < msPerDay" by (rule msPerDay_pos)
  show "dayBoundsDelimit rt date t"
    unfolding dayBoundsDelimit_def setHours_start setHours_end
      local_day_cases [of rt t "localDay rt date"]
      zoneWithChange_times [OF z]
    using away D by (auto split: if_splits simp: max_def min_def)
  show "endOfDayKept rt date"
    unfolding endOfDayKept_def setHours_end zoneWithChange_times [OF z]
    using away D by (auto split: if_splits simp: max_def min_def)
qed

text \<open>
  The host in New York on 7 November 2027: the day bounds of the request are 00:00 at
  UTC-4 and 23:59:59.999 at UTC-5, and they delimit the day, which has 25 hours.
\<close>

lemma newYork_times:
  "LocalTime newYorkRuntime t = t + (if t < 1825567200000 then - 14400000 else - 18000000)"
  "UTC newYorkRuntime t = t - (if t < 1825552800000 then - 14400000 else - 18000000)"
  by (simp_all add: LocalTime_def UTC_def newYorkRuntime_def zoneWithChange_def)

lemma newYork_day_bounds:
  "localDay newYorkRuntime 1825561800000 = 21129"
  "setHours newYorkRuntime 1825561800000 0 0 0 0 = 1825560000000"
  "setHours newYorkRuntime 1825561800000 23 59 59 999 = 1825649999999"
  by (simp_all add: setHours_def localDay_def newYork_times msPerDay_def)

lemma newYork_startOfDayOnDay: "startOfDayOnDay newYorkRuntime t"
proof (rule zoneWithChange_startOfDayOnDay)
  show "localTZA newYorkRuntime = zoneWithChange (- 14400000) 1825567200000 (- 18000000)"
    by (simp add: newYorkRuntime_def)
  show "- 18000000 - - 14400000 < msPerDay"
    by (simp add: msPerDay_def)
qed

lemma newYork_endOfDayKept: "endOfDayKept newYorkRuntime 1825561800000"
  by (simp add: endOfDayKept_def newYork_day_bounds newYork_times msPerDay_def)

lemma newYork_dayBoundsDelimit: "dayBoundsDelimit newYorkRuntime 1825561800000 t"
proof (cases "t < 1825567200000")
  case True
  have "(86400000 * 21129 \<le> t - 14400000 \<and> t - 14400000 \<le> 86400000 * 21129 + (86400000 - 1))
          \<longleftrightarrow> (t - 14400000) div 86400000 = (21129::int)"
    by (rule day_range) simp
  with True show ?thesis
    by (simp add: dayBoundsDelimit_def newYork_day_bounds localDay_def [of _ t] newYork_times
          msPerDay_def)
next
  case False
  have "(86400000 * 21129 \<le> t - 18000000 \<and> t - 18000000 \<le> 86400000 * 21129 + (86400000 - 1))
          \<longleftrightarrow> (t - 18000000) div 86400000 = (21129::int)"
    by (rule day_range) simp
  with False show ?thesis
    by (simp add: dayBoundsDelimit_def newYork_day_bounds localDay_def [of _ t] newYork_times
          msPerDay_def)
qed

text \<open>
  The host in Nuuk on 27 March 2027: the end of day that \<^verbatim>\<open>setHours\<close> computes for the
  Saturday is 00:59:59.999 of the Sunday.
\<close>

lemma nuuk_times:
  "LocalTime nuukRuntime t = t + (if t < 1806195600000 then - 7200000 else - 3600000)"
  "UTC nuukRuntime t = t - (if t < 1806192000000 then - 7200000 else - 3600000)"
  by (simp_all add: LocalTime_def UTC_def nuukRuntime_def zoneWithChange_def)

lemma nuuk_day_bounds:
  "localDay nuukRuntime 1806156000000 = 20904"
  "setHours nuukRuntime 1806156000000 0 0 0 0 = 1806112800000"
  "setHours nuukRuntime 1806112800000 23 59 59 999 = 1806199199999"
  "localDay nuukRuntime 1806199199999 = 20905"
  "timeOfDay nuukRuntime 1806199199999 = 3599999"
  "localDay nuukRuntime 1806197400000 = 20905"
  by (simp_all add: setHours_def localDay_def timeOfDay_def nuuk_times msPerDay_def)

subsection \<open>Rounding to a double\<close>

lemma log2floor_nonneg: "0 \<le> log2floor n"
  by (induction n rule: log2floor.induct) (simp add: log2floor.simps)

lemma log2floor_lower: "1 \<le> n \<Longrightarrow> 2 ^ nat (log2floor n) \<le> n"
proof (induction n rule: log2floor.induct)
  case (1 n)
  show ?case
  proof (cases "n < 2")
    case True
    with "1.prems" show ?thesis by (simp add: log2floor.simps)
  next
    case False
    then have "1 \<le> n div 2" by simp
    with "1.IH" False have ih: "2 ^ nat (log2floor (n div 2)) \<le> n div 2" by simp
    have "nat (log2floor (n div 2) + 1) = Suc (nat (log2floor (n div 2)))"
      using log2floor_nonneg [of "n div 2"] by simp
    then have "(2::int) ^ nat (log2floor n) = 2 * 2 ^ nat (log2floor (n div 2))"
      using False by (simp add: log2floor.simps [of n])
    also have "\<dots> \<le> 2 * (n div 2)" using ih by simp
    also have "\<dots> \<le> n" by simp
    finally show ?thesis .
  qed
qed

lemma log2floor_less:
  assumes "1 \<le> n" and "n < 2 ^ k"
  shows "log2floor n < int k"
proof -
  have "(2::int) ^ nat (log2floor n) < 2 ^ k"
    using log2floor_lower [OF assms(1)] assms(2) by (rule le_less_trans)
  then have "nat (log2floor n) < k"
    by (rule power_less_imp_less_exp [rotated]) simp
  then show ?thesis by simp
qed

lemma pow2_nonpos: "k \<le> 0 \<Longrightarrow> pow2 k = 1 / 2 ^ nat (- k)"
  by (cases "k = 0") (simp_all add: pow2_def)

lemma roundHalfEven_of_int: "roundHalfEven (of_int m) = m"
  by (simp add: roundHalfEven_def)

text \<open>A whole number below \<open>2 ^ 53\<close> in magnitude is a double.\<close>

lemma toDouble_of_int:
  assumes "\<bar>n\<bar> < 2 ^ 53"
  shows "toDouble (of_int n) = of_int n"
proof (cases "n = 0")
  case True
  then show ?thesis by (simp add: toDouble_def)
next
  case False
  let ?a = "\<bar>n\<bar>"
  let ?e = "log2floor ?a"
  from False have a1: "1 \<le> ?a" by simp
  have e0: "0 \<le> ?e" by (rule log2floor_nonneg)
  have e53: "?e < 53" using log2floor_less [OF a1 assms] by simp
  have ex: "binaryExponent \<bar>of_int n\<bar> = ?e"
    using a1 by (simp add: binaryExponent_def flip: of_int_abs)
  have mx: "max ?e (- 1022) - 52 = - int (nat (52 - ?e))"
    using e0 e53 by simp
  let ?j = "nat (52 - ?e)"
  have q: "pow2 (max (binaryExponent \<bar>of_int n\<bar>) (- 1022) - 52) = 1 / 2 ^ ?j"
    unfolding ex mx by (simp add: pow2_nonpos)
  have m: "\<bar>of_int n :: rat\<bar> / (1 / 2 ^ ?j) = of_int (?a * 2 ^ ?j)"
    by simp
  have "toDouble (of_int n)
          = sgn (of_int n) * of_int (roundHalfEven (\<bar>of_int n\<bar> / (1 / 2 ^ ?j))) * (1 / 2 ^ ?j)"
    using False by (simp only: toDouble_def q Let_def) simp
  also have "\<dots> = sgn (of_int n) * of_int (?a * 2 ^ ?j) * (1 / 2 ^ ?j)"
    by (simp only: m roundHalfEven_of_int)
  also have "\<dots> = sgn (of_int n :: rat) * \<bar>of_int n\<bar>"
    by simp
  also have "\<dots> = of_int n"
    by (simp add: sgn_mult_abs)
  finally show ?thesis .
qed

lemma isIntegerE:
  assumes "isInteger x"
  obtains n where "x = of_int n"
  using assms by (metis isInteger_def)

lemma isInteger_of_int [simp]: "isInteger (of_int n)"
  by (simp add: isInteger_def)

lemma toDouble_exact:
  assumes "isInteger x" and "\<bar>x\<bar> < 2 ^ 53"
  shows "toDouble x = x"
proof -
  from assms(1) obtain n where n: "x = of_int n" by (rule isIntegerE)
  have "(of_int \<bar>n\<bar> :: rat) < of_int (2 ^ 53)"
    using assms(2) by (simp add: n)
  then have "\<bar>n\<bar> < 2 ^ 53"
    by (simp only: of_int_less_iff)
  then show ?thesis
    unfolding n by (rule toDouble_of_int)
qed

lemma isInteger_add: "isInteger x \<Longrightarrow> isInteger y \<Longrightarrow> isInteger (x + y)"
  by (elim isIntegerE) (simp flip: of_int_add)

lemma isInteger_mult: "isInteger x \<Longrightarrow> isInteger y \<Longrightarrow> isInteger (x * y)"
  by (elim isIntegerE) (simp flip: of_int_mult)

lemma jsAdd_exact:
  "isInteger x \<Longrightarrow> isInteger y \<Longrightarrow> \<bar>x + y\<bar> < 2 ^ 53 \<Longrightarrow> jsAdd x y = x + y"
  by (simp add: jsAdd_def toDouble_exact isInteger_add)

lemma jsMul_exact:
  "isInteger x \<Longrightarrow> isInteger y \<Longrightarrow> \<bar>x * y\<bar> < 2 ^ 53 \<Longrightarrow> jsMul x y = x * y"
  by (simp add: jsMul_def toDouble_exact isInteger_mult)

lemma sum_abs_nonneg: "0 \<le> sum_list (map (\<lambda>f. \<bar>quantity f * price f\<bar>) foods)"
  by (induction foods) simp_all

lemma abs_sum_le:
  "\<bar>sum_list (map (\<lambda>f. quantity f * price f) foods)\<bar>
     \<le> sum_list (map (\<lambda>f. \<bar>quantity f * price f\<bar>) foods)"
  by (induction foods) (simp_all add: abs_triangle_ineq [THEN order_trans])

lemma isInteger_sum:
  "list_all (\<lambda>f. isInteger (quantity f) \<and> isInteger (price f)) foods \<Longrightarrow>
   isInteger (sum_list (map (\<lambda>f. quantity f * price f) foods))"
proof (induction foods)
  case Nil
  have "isInteger (of_int 0)" by (rule isInteger_of_int)
  then show ?case by simp
next
  case (Cons f foods)
  then show ?case by (simp add: isInteger_add isInteger_mult)
qed

text \<open>The food total of the code is the exact sum when the amounts are whole and small.\<close>

lemma foodTotal_exact:
  assumes "isInteger acc"
    and "list_all (\<lambda>f. isInteger (quantity f) \<and> isInteger (price f)) foods"
    and "\<bar>acc\<bar> + sum_list (map (\<lambda>f. \<bar>quantity f * price f\<bar>) foods) < 2 ^ 53"
  shows "foldl (\<lambda>sum item. jsAdd sum (jsMul (quantity item) (price item))) acc foods
           = acc + sum_list (map (\<lambda>f. quantity f * price f) foods)"
  using assms
proof (induction foods arbitrary: acc)
  case Nil
  then show ?case by simp
next
  case (Cons f foods)
  let ?p = "quantity f * price f"
  let ?rest = "sum_list (map (\<lambda>f. \<bar>quantity f * price f\<bar>) foods)"
  have rest: "0 \<le> ?rest" by (rule sum_abs_nonneg)
  have bound: "\<bar>acc\<bar> + \<bar>?p\<bar> + ?rest < 2 ^ 53"
    using Cons.prems(3) by simp
  have ints: "isInteger (quantity f)" "isInteger (price f)"
    "list_all (\<lambda>f. isInteger (quantity f) \<and> isInteger (price f)) foods"
    using Cons.prems(2) by simp_all
  have "\<bar>?p\<bar> < 2 ^ 53" using bound rest by linarith
  then have mul: "jsMul (quantity f) (price f) = ?p"
    using ints(1,2) by (simp add: jsMul_exact)
  have tri: "\<bar>acc + ?p\<bar> \<le> \<bar>acc\<bar> + \<bar>?p\<bar>" by (rule abs_triangle_ineq)
  have "\<bar>acc + ?p\<bar> < 2 ^ 53" using bound rest tri by linarith
  then have add: "jsAdd acc ?p = acc + ?p"
    using Cons.prems(1) ints(1,2) by (simp add: jsAdd_exact isInteger_mult)
  have "foldl (\<lambda>sum item. jsAdd sum (jsMul (quantity item) (price item))) (acc + ?p) foods
          = (acc + ?p) + sum_list (map (\<lambda>f. quantity f * price f) foods)"
  proof (rule Cons.IH)
    show "isInteger (acc + ?p)"
      using Cons.prems(1) ints(1,2) by (simp add: isInteger_add isInteger_mult)
    show "list_all (\<lambda>f. isInteger (quantity f) \<and> isInteger (price f)) foods"
      by (rule ints(3))
    show "\<bar>acc + ?p\<bar> + ?rest < 2 ^ 53"
      using bound tri by linarith
  qed
  then show ?case
    by (simp add: mul add)
qed

lemma orZero_theme:
  "orZero (map_option st_price t) = (case t of None \<Rightarrow> 0 | Some x \<Rightarrow> st_price x)"
  by (simp add: orZero_def split: option.splits)

lemma calculateTotalAmount_steps:
  "calculateTotalAmount base foods t =
     jsAdd (jsAdd base (foldl (\<lambda>sum item. jsAdd sum (jsMul (quantity item) (price item))) 0 foods))
           (case t of None \<Rightarrow> 0 | Some x \<Rightarrow> st_price x)"
  by (simp add: calculateTotalAmount_def orZero_theme)

lemma calculateTotalAmount_exact:
  assumes "safeAmounts base foods t"
  shows "calculateTotalAmount base foods t = exactTotal base foods t"
proof -
  let ?sum = "sum_list (map (\<lambda>f. quantity f * price f) foods)"
  let ?abs = "sum_list (map (\<lambda>f. \<bar>quantity f * price f\<bar>) foods)"
  let ?th = "case t of None \<Rightarrow> 0 | Some x \<Rightarrow> st_price x"
  have ib: "isInteger base"
    and il: "list_all (\<lambda>f. isInteger (quantity f) \<and> isInteger (price f)) foods"
    and bound: "\<bar>base\<bar> + ?abs + (case t of None \<Rightarrow> 0 | Some x \<Rightarrow> \<bar>st_price x\<bar>) < 2 ^ 53"
    using assms by (simp_all add: safeAmounts_def)
  have it: "isInteger ?th"
  proof (cases t)
    case None
    have "isInteger (of_int 0)" by (rule isInteger_of_int)
    with None show ?thesis by simp
  next
    case (Some x)
    with assms show ?thesis by (simp add: safeAmounts_def)
  qed
  have at: "(case t of None \<Rightarrow> 0 | Some x \<Rightarrow> \<bar>st_price x\<bar>) = \<bar>?th\<bar>"
    by (cases t) simp_all
  have th0: "0 \<le> \<bar>?th\<bar>" by simp
  have b0: "0 \<le> \<bar>base\<bar>" by simp
  have s0: "\<bar>?sum\<bar> \<le> ?abs" by (rule abs_sum_le)
  have z: "isInteger (0::rat)"
    using isInteger_of_int [of 0] by simp
  have "\<bar>0::rat\<bar> + ?abs < 2 ^ 53"
    using bound at th0 b0 by linarith
  then have food: "foldl (\<lambda>sum item. jsAdd sum (jsMul (quantity item) (price item))) 0 foods
                     = ?sum"
    using foodTotal_exact [OF z il] by simp
  have isum: "isInteger ?sum" using il by (rule isInteger_sum)
  have t1: "\<bar>base + ?sum\<bar> \<le> \<bar>base\<bar> + \<bar>?sum\<bar>" by (rule abs_triangle_ineq)
  have "\<bar>base + ?sum\<bar> < 2 ^ 53"
    using bound at th0 s0 t1 by linarith
  then have a1: "jsAdd base ?sum = base + ?sum"
    using ib isum by (simp add: jsAdd_exact)
  have t2: "\<bar>base + ?sum + ?th\<bar> \<le> \<bar>base + ?sum\<bar> + \<bar>?th\<bar>" by (rule abs_triangle_ineq)
  have "\<bar>base + ?sum + ?th\<bar> < 2 ^ 53"
    using bound at s0 t1 t2 by linarith
  then have a2: "jsAdd (base + ?sum) ?th = base + ?sum + ?th"
    using ib isum it by (simp add: jsAdd_exact isInteger_add)
  show ?thesis
    by (simp only: calculateTotalAmount_steps food a1 a2 exactTotal_def)
qed

subsection \<open>C2: the persisted total amount\<close>

lemma createBooking_where_snd:
  "snd (createBooking_where rt v) =
     v\<lparr>in_eventDate := setHours rt (setHours rt (in_eventDate v) 0 0 0 0) 23 59 59 999\<rparr>"
  by (simp add: createBooking_where_def Let_def)

text \<open>
  Claim C2 says that the persisted total equals base price plus the sum of quantity
  times price plus theme price, exactly. The code adds and multiplies doubles. With
  Hall A at 50000 and seven portions at 585.36 (the nearest double), the product and the
  sum are both rounded: the row holds 54097.520000000004 as a double, which is not the
  exact total of the amounts.
\<close>

theorem createBooking_totalAmount_rounds:
  "map totalAmount
     (bookings (snd (createBooking scenarioRuntime ''user-1'' fractionalInput scenarioWorld)))
     = [3717553267115295 / 68719476736]
   \<and> exactTotal (h_basePrice hallA) (in_selectedFoods fractionalInput)
         (in_selectedTheme fractionalInput)
       = 475846818190757725 / 8796093022208
   \<and> (3717553267115295 / 68719476736 :: rat) \<noteq> 475846818190757725 / 8796093022208"
proof -
  have total:
    "calculateTotalAmount 50000
       [\<lparr>sf_id = ''food-2'', sf_name = ''Thali'', quantity = 7,
         price = 5148881011479675 / 8796093022208\<rparr>] None
     = 3717553267115295 / 68719476736"
    by code_simp
  have run: "map totalAmount
     (bookings (snd (createBooking scenarioRuntime ''user-1'' fractionalInput scenarioWorld)))
     = [3717553267115295 / 68719476736]"
    by (simp add: createBooking_eval scenario_defs fractionalInput_def setHours_def
          LocalTime_def UTC_def fixedZone_def msPerDay_def total)
  have exact: "exactTotal (h_basePrice hallA) (in_selectedFoods fractionalInput)
         (in_selectedTheme fractionalInput)
       = 475846818190757725 / 8796093022208"
    by (simp add: exactTotal_def hallA_def fractionalInput_def scenarioInput_def)
  show ?thesis
    using run exact by simp
qed

text \<open>
  Above \<open>2 ^ 53\<close> whole amounts round as well: a base price of \<open>2 ^ 53\<close> and one portion
  at 1 give \<open>2 ^ 53\<close>.
\<close>

lemma total_rounds_above_safe_integers:
  "calculateTotalAmount 9007199254740992
     [\<lparr>sf_id = ''food-3'', sf_name = ''Water'', quantity = 1, price = 1\<rparr>] None
   = 9007199254740992"
  by code_simp

text \<open>
  Claim C2, amended. Whenever \<^verbatim>\<open>createBooking\<close> succeeds, the total amount of the
  created (and appended) row is the base price of the hall found for the request, plus
  the food total, plus the theme price or 0, where the food total adds up quantity times
  price from 0 in the order of the list and every sum and product is rounded to a
  double. When all these amounts are whole numbers whose magnitudes add up to less than
  \<open>2 ^ 53\<close>, no step rounds and the total is the exact one.
\<close>

theorem createBooking_totalAmount:
  assumes "createBooking rt uid input w = (Inr (Data created), w')"
  shows "\<exists>hall. find (\<lambda>h. h_id h = in_hallId input) (halls w) = Some hall
           \<and> totalAmount created =
               jsAdd (jsAdd (h_basePrice hall)
                        (foldl (\<lambda>sum item. jsAdd sum (jsMul (quantity item) (price item))) 0
                           (in_selectedFoods input)))
                     (case in_selectedTheme input of None \<Rightarrow> 0 | Some t \<Rightarrow> st_price t)
           \<and> (safeAmounts (h_basePrice hall) (in_selectedFoods input) (in_selectedTheme input)
                \<longrightarrow> totalAmount created
                      = exactTotal (h_basePrice hall) (in_selectedFoods input)
                          (in_selectedTheme input))
           \<and> bookings w' = bookings w @ [created]"
proof -
  have "\<exists>hall. find (\<lambda>h. h_id h = in_hallId input) (halls w) = Some hall
           \<and> totalAmount created
               = calculateTotalAmount (h_basePrice hall) (in_selectedFoods input)
                   (in_selectedTheme input)
           \<and> bookings w' = bookings w @ [created]"
    using assms
    unfolding createBooking_def booking_findFirst_def hall_findUnique_def booking_create_def
      generateBookingNumber_def
    by (auto simp: action_defs Let_def createBooking_where_snd bookingSchema_parse_def
          split: sum.splits prod.splits option.splits if_splits exn.splits list.splits
          dest!: arg_cong[where f=snd and x="createBooking_where _ _"])
  then obtain hall where
    h: "find (\<lambda>h. h_id h = in_hallId input) (halls w) = Some hall"
    and t: "totalAmount created
              = calculateTotalAmount (h_basePrice hall) (in_selectedFoods input)
                  (in_selectedTheme input)"
    and b: "bookings w' = bookings w @ [created]"
    by blast
  show ?thesis
    using h t b calculateTotalAmount_exact
    by (auto simp: calculateTotalAmount_steps)
qed

text \<open>
  The scenario of the specification: base price 50000, two portions at 200 and a theme
  at 3000 give 53400.
\<close>

theorem createBooking_totalAmount_witness:
  "\<exists>created w'. createBooking scenarioRuntime ''user-1'' scenarioInput scenarioWorld
                    = (Inr (Data created), w')
                 \<and> totalAmount created = 53400"
proof -
  have "\<exists>created w'. createBooking scenarioRuntime ''user-1'' scenarioInput scenarioWorld
                        = (Inr (Data created), w')"
    by (simp add: createBooking_eval scenario_defs setHours_def LocalTime_def UTC_def
          fixedZone_def msPerDay_def)
  then obtain created w' where
    run: "createBooking scenarioRuntime ''user-1'' scenarioInput scenarioWorld
            = (Inr (Data created), w')"
    by blast
  have f: "find (\<lambda>h. h_id h = in_hallId scenarioInput) (halls scenarioWorld) = Some hallA"
    by (simp add: scenario_defs)
  have i: "isInteger (50000::rat)" "isInteger (2::rat)" "isInteger (200::rat)"
    "isInteger (3000::rat)"
    using isInteger_of_int [of 50000] isInteger_of_int [of 2] isInteger_of_int [of 200]
      isInteger_of_int [of 3000] by simp_all
  have s: "safeAmounts (h_basePrice hallA) (in_selectedFoods scenarioInput)
             (in_selectedTheme scenarioInput)"
    by (simp add: safeAmounts_def scenario_defs i)
  have e: "exactTotal (h_basePrice hallA) (in_selectedFoods scenarioInput)
             (in_selectedTheme scenarioInput) = 53400"
    by (simp add: exactTotal_def scenario_defs)
  from createBooking_totalAmount [OF run] f s e have "totalAmount created = 53400"
    by auto
  with run show ?thesis by blast
qed

subsection \<open>Tables keyed by id\<close>

lemma find_update_first:
  assumes "\<And>x. P x \<Longrightarrow> P (f x)"
  shows "find P (update_first P f xs) = map_option f (find P xs)"
  using assms by (induction xs) auto

lemma update_first_none: "find P xs = None \<Longrightarrow> update_first P f xs = xs"
  by (induction xs) (auto split: if_splits)

lemma map_update_first:
  assumes "\<And>x. g (f x) = g x"
  shows "map g (update_first P f xs) = map g xs"
  using assms by (induction xs) auto

lemma update_first_same: "find P xs = Some h \<Longrightarrow> update_first P (\<lambda>_. h) xs = xs"
  by (induction xs) (auto split: if_splits)

subsection \<open>C3: a payment promotes the booking\<close>

lemma applyBookingUpdate_id [simp]: "b_id (applyBookingUpdate u b) = b_id b"
  by (simp add: applyBookingUpdate_def)

text \<open>
  Claim C3. When the store call does not throw, \<^verbatim>\<open>updatePaymentStatus(id, "PAID")\<close> on
  an existing booking \<open>b\<close> returns and stores that booking with payment status PAID and
  status CONFIRMED, whatever the status of \<open>b\<close> was (\<open>b\<close> is arbitrary); the payment id
  is replaced when one is given.
\<close>

theorem updatePaymentStatus_paid:
  assumes "find (\<lambda>b. b_id b = i) (bookings w) = Some b"
    and "storeFault w (storeCalls w) = None"
  shows "fst (updatePaymentStatus i PAID pid w)
           = Inr (Data (b\<lparr>status := CONFIRMED, paymentStatus := PAID,
                           paymentId := (case pid of None \<Rightarrow> paymentId b | Some p \<Rightarrow> Some p)\<rparr>))
         \<and> find (\<lambda>b. b_id b = i) (bookings (snd (updatePaymentStatus i PAID pid w)))
           = Some (b\<lparr>status := CONFIRMED, paymentStatus := PAID,
                     paymentId := (case pid of None \<Rightarrow> paymentId b | Some p \<Rightarrow> Some p)\<rparr>)"
  using assms
  by (simp add: updatePaymentStatus_def booking_update_def action_defs find_update_first
        applyBookingUpdate_def setOrKeep_def)

text \<open>A cancelled booking that is paid becomes confirmed.\<close>

theorem updatePaymentStatus_paid_witness:
  "status (bookedRow CANCELLED) = CANCELLED
   \<and> fst (updatePaymentStatus ''row-7'' PAID (Some ''pay-1'')
           (scenarioWorld\<lparr>bookings := [bookedRow CANCELLED]\<rparr>))
       = Inr (Data ((bookedRow CANCELLED)
                \<lparr>status := CONFIRMED, paymentStatus := PAID, paymentId := Some ''pay-1''\<rparr>))"
proof -
  have f: "find (\<lambda>b. b_id b = ''row-7'') (bookings (scenarioWorld\<lparr>bookings := [bookedRow CANCELLED]\<rparr>))
             = Some (bookedRow CANCELLED)"
    by (simp add: bookedRow_def)
  have s: "storeFault (scenarioWorld\<lparr>bookings := [bookedRow CANCELLED]\<rparr>)
             (storeCalls (scenarioWorld\<lparr>bookings := [bookedRow CANCELLED]\<rparr>)) = None"
    by (simp add: scenarioWorld_def)
  from updatePaymentStatus_paid [OF f s, of "Some ''pay-1''"] show ?thesis
    by (simp add: bookedRow_def)
qed

subsection \<open>C10: the frame of a payment update\<close>

text \<open>
  Claim C10. \<^verbatim>\<open>updatePaymentStatus(id, p, paymentId)\<close> with \<open>p\<close> other than PAID changes
  nothing but the payment status and the payment id of bookings: the bookings table
  before and after agree once these two columns are blanked, the status column is the
  same, and the other tables are untouched. When the store call does not throw, the row
  with the given id gets the new payment status (and the payment id, when one is given);
  when it throws, the table is as before.
\<close>

theorem updatePaymentStatus_frame:
  assumes "ps \<noteq> PAID"
  shows "map (\<lambda>b. b\<lparr>paymentStatus := PAY_PENDING, paymentId := None\<rparr>)
             (bookings (snd (updatePaymentStatus i ps pid w)))
           = map (\<lambda>b. b\<lparr>paymentStatus := PAY_PENDING, paymentId := None\<rparr>) (bookings w)
         \<and> map status (bookings (snd (updatePaymentStatus i ps pid w)))
           = map status (bookings w)
         \<and> halls (snd (updatePaymentStatus i ps pid w)) = halls w
         \<and> foodItems (snd (updatePaymentStatus i ps pid w)) = foodItems w
         \<and> themes (snd (updatePaymentStatus i ps pid w)) = themes w
         \<and> (if storeFault w (storeCalls w) = None
            then bookings (snd (updatePaymentStatus i ps pid w))
                 = update_first (\<lambda>b. b_id b = i)
                     (\<lambda>b. b\<lparr>paymentStatus := ps,
                              paymentId := (case pid of None \<Rightarrow> paymentId b | Some p \<Rightarrow> Some p)\<rparr>)
                     (bookings w)
            else bookings (snd (updatePaymentStatus i ps pid w)) = bookings w)"
proof -
  let ?u = "\<lparr>u_status = None,
              u_paymentStatus = Some ps, u_paymentId = pid, u_specialRequests = None\<rparr>"
  have ap: "applyBookingUpdate ?u
              = (\<lambda>b. b\<lparr>paymentStatus := ps,
                       paymentId := (case pid of None \<Rightarrow> paymentId b | Some p \<Rightarrow> Some p)\<rparr>)"
    by (auto simp: applyBookingUpdate_def setOrKeep_def fun_eq_iff split: option.splits)
  have m1: "map (\<lambda>b. b\<lparr>paymentStatus := PAY_PENDING, paymentId := None\<rparr>)
              (update_first (\<lambda>b. b_id b = i) (applyBookingUpdate ?u) (bookings w))
            = map (\<lambda>b. b\<lparr>paymentStatus := PAY_PENDING, paymentId := None\<rparr>) (bookings w)"
    by (rule map_update_first) (simp add: ap)
  have m2: "map status (update_first (\<lambda>b. b_id b = i) (applyBookingUpdate ?u) (bookings w))
            = map status (bookings w)"
    by (rule map_update_first) (simp add: ap)
  have n: "find (\<lambda>b. b_id b = i) (bookings w) = None \<Longrightarrow>
           update_first (\<lambda>b. b_id b = i) (applyBookingUpdate ?u) (bookings w) = bookings w"
    by (rule update_first_none)
  show ?thesis
    using m1 m2 n assms
    by (auto simp: updatePaymentStatus_def booking_update_def action_defs ap
          split: option.splits)
qed


text \<open>A failed payment on a confirmed booking leaves it confirmed.\<close>

theorem updatePaymentStatus_frame_witness:
  "FAILED \<noteq> PAID
   \<and> bookings (snd (updatePaymentStatus ''row-7'' FAILED (Some ''pay-2'')
                      (scenarioWorld\<lparr>bookings := [bookedRow CONFIRMED]\<rparr>)))
       = [(bookedRow CONFIRMED)\<lparr>paymentStatus := FAILED, paymentId := Some ''pay-2''\<rparr>]
   \<and> map status (bookings (snd (updatePaymentStatus ''row-7'' FAILED (Some ''pay-2'')
                      (scenarioWorld\<lparr>bookings := [bookedRow CONFIRMED]\<rparr>))))
       = [CONFIRMED]"
proof -
  have h: "FAILED \<noteq> PAID" by simp
  from updatePaymentStatus_frame [OF h, of "''row-7''" "Some ''pay-2''"
      "scenarioWorld\<lparr>bookings := [bookedRow CONFIRMED]\<rparr>"]
  show ?thesis
    by (simp add: scenarioWorld_def bookedRow_def)
qed

subsection \<open>C8: booking statistics\<close>




subsection \<open>C4: deleting a hall\<close>

lemma filter_nonempty_iff: "filter P xs \<noteq> [] \<longleftrightarrow> list_ex P xs"
  by (induction xs) auto

lemma find_remove_first:
  "distinct (map key xs) \<Longrightarrow> find (\<lambda>x. key x = i) (remove_first (\<lambda>x. key x = i) xs) = None"
proof (induction xs)
  case Nil
  then show ?case by simp
next
  case (Cons x xs)
  then show ?case by (auto simp: find_None_iff image_iff)
qed

lemma length_remove_first:
  "find P xs \<noteq> None \<Longrightarrow> length (remove_first P xs) < length xs"
  by (induction xs) (auto split: if_splits)

text \<open>
  Claim C4. When the store does not throw: if some booking of the hall is CONFIRMED or
  PENDING, \<^verbatim>\<open>deleteHall\<close> fails with the message ``Cannot delete hall with active
  bookings. Mark as inactive instead.'' and the halls and bookings are as before; if no
  booking of the hall is active and the hall exists, the call succeeds and the hall row
  is removed (with unique ids, no hall with that id is left).
\<close>

theorem deleteHall_guard:
  "(storeFault w (storeCalls w) = None
      \<and> list_ex (\<lambda>b. hallId b = i \<and> activeBooking b) (bookings w)
    \<longrightarrow> fst (deleteHall i w)
           = Inr (Failure ''Cannot delete hall with active bookings. Mark as inactive instead.'')
         \<and> halls (snd (deleteHall i w)) = halls w
         \<and> bookings (snd (deleteHall i w)) = bookings w)
   \<and> (storeFault w (storeCalls w) = None \<and> storeFault w (Suc (storeCalls w)) = None
         \<and> \<not> list_ex (\<lambda>b. hallId b = i \<and> activeBooking b) (bookings w)
         \<and> find (\<lambda>h. h_id h = i) (halls w) \<noteq> None
      \<longrightarrow> fst (deleteHall i w) = Inr (Message ''Hall deleted successfully'')
         \<and> halls (snd (deleteHall i w)) = remove_first (\<lambda>h. h_id h = i) (halls w)
         \<and> length (halls (snd (deleteHall i w))) < length (halls w)
         \<and> (distinct (map h_id (halls w))
              \<longrightarrow> find (\<lambda>h. h_id h = i) (halls (snd (deleteHall i w))) = None))"
proof -
  have c: "(filter (\<lambda>b. hallId b = i \<and> (status b = CONFIRMED \<or> status b = PENDING))
              (bookings w) \<noteq> [])
           = list_ex (\<lambda>b. hallId b = i \<and> activeBooking b) (bookings w)"
    by (simp only: filter_nonempty_iff activeBooking_def)
  show ?thesis
    by (auto simp: deleteHall_def booking_count_def hall_delete_def action_defs c
          length_remove_first find_remove_first
          split: option.splits)
qed

text \<open>Hall A with a pending booking, and Hall A with a cancelled booking only.\<close>

theorem deleteHall_guard_witness:
  "fst (deleteHall ''hall-a'' (scenarioWorld\<lparr>bookings := [bookedRow PENDING]\<rparr>))
     = Inr (Failure ''Cannot delete hall with active bookings. Mark as inactive instead.'')
   \<and> halls (snd (deleteHall ''hall-a'' (scenarioWorld\<lparr>bookings := [bookedRow PENDING]\<rparr>)))
     = [hallA]
   \<and> fst (deleteHall ''hall-a'' (scenarioWorld\<lparr>bookings := [bookedRow CANCELLED]\<rparr>))
     = Inr (Message ''Hall deleted successfully'')
   \<and> halls (snd (deleteHall ''hall-a'' (scenarioWorld\<lparr>bookings := [bookedRow CANCELLED]\<rparr>)))
     = []"
  using deleteHall_guard [of "scenarioWorld\<lparr>bookings := [bookedRow PENDING]\<rparr>" "''hall-a''"]
    deleteHall_guard [of "scenarioWorld\<lparr>bookings := [bookedRow CANCELLED]\<rparr>" "''hall-a''"]
  by (simp add: scenarioWorld_def bookedRow_def hallA_def activeBooking_def)

subsection \<open>C7: toggling twice\<close>

lemma update_first_const:
  "find P xs = Some h \<Longrightarrow> update_first P f xs = update_first P (\<lambda>_. f h) xs"
  by (induction xs) (auto split: if_splits)

lemma find_update_first_const:
  "find P xs = Some h \<Longrightarrow> P h' \<Longrightarrow> find P (update_first P (\<lambda>_. h') xs) = Some h'"
  by (induction xs) (auto split: if_splits)

lemma update_first_const_twice:
  "find P xs = Some h \<Longrightarrow> P h' \<Longrightarrow>
   update_first P (\<lambda>_. h'') (update_first P (\<lambda>_. h') xs) = update_first P (\<lambda>_. h'') xs"
  by (induction xs) (auto split: if_splits)

lemma find_Some_holds: "find P xs = Some h \<Longrightarrow> P h"
  by (induction xs) (auto split: if_splits)

lemma toggleHallStatus_found:
  assumes "find (\<lambda>h. h_id h = i) (halls w) = Some h"
    and "storeFault w (storeCalls w) = None"
    and "storeFault w (Suc (storeCalls w)) = None"
  shows "toggleHallStatus i w
           = (Inr (Data (h\<lparr>h_isActive := \<not> h_isActive h\<rparr>)),
              w\<lparr>storeCalls := Suc (Suc (storeCalls w)),
                halls := update_first (\<lambda>h. h_id h = i) (\<lambda>_. h\<lparr>h_isActive := \<not> h_isActive h\<rparr>) (halls w),
                revalidated := revalidated w @ [''/admin/halls'', ''/halls'']\<rparr>)"
proof -
  let ?u = "\<lparr>hi_name = None, hi_description = None, hi_capacity = None,
             hi_basePrice = None, hi_images = None, hi_amenities = None,
             hi_isActive = Some (\<not> h_isActive h)\<rparr>"
  have a: "applyHallUpdate ?u h = h\<lparr>h_isActive := \<not> h_isActive h\<rparr>"
    by (simp add: applyHallUpdate_def setOrKeep_def)
  have u: "update_first (\<lambda>h. h_id h = i) (applyHallUpdate ?u) (halls w)
             = update_first (\<lambda>h. h_id h = i) (\<lambda>_. h\<lparr>h_isActive := \<not> h_isActive h\<rparr>) (halls w)"
    using update_first_const [OF assms(1), of "applyHallUpdate ?u"] by (simp only: a)
  show ?thesis
    using assms
    by (simp add: toggleHallStatus_def hall_findUnique_def hall_update_def action_defs u a)
qed

lemma toggleHallStatus_missing:
  assumes "find (\<lambda>h. h_id h = i) (halls w) = None"
    and "storeFault w (storeCalls w) = None"
  shows "toggleHallStatus i w
           = (Inr (Failure ''Hall not found''), w\<lparr>storeCalls := Suc (storeCalls w)\<rparr>)"
  using assms
  by (simp add: toggleHallStatus_def hall_findUnique_def action_defs)

lemma toggleHallStatus_twice:
  assumes "storeFault w (storeCalls w) = None"
    and "storeFault w (Suc (storeCalls w)) = None"
    and "storeFault w (Suc (Suc (storeCalls w))) = None"
    and "storeFault w (Suc (Suc (Suc (storeCalls w)))) = None"
  shows "halls (snd (toggleHallStatus i (snd (toggleHallStatus i w)))) = halls w"
proof (cases "find (\<lambda>h. h_id h = i) (halls w)")
  case None
  then show ?thesis
    using assms by (simp add: toggleHallStatus_missing)
next
  case (Some h)
  let ?P = "\<lambda>h. h_id h = i"
  let ?h' = "h\<lparr>h_isActive := \<not> h_isActive h\<rparr>"
  let ?w1 = "snd (toggleHallStatus i w)"
  have P: "?P h" using Some by (rule find_Some_holds)
  have w1: "toggleHallStatus i w
              = (Inr (Data ?h'),
                 w\<lparr>storeCalls := Suc (Suc (storeCalls w)),
                   halls := update_first ?P (\<lambda>_. ?h') (halls w),
                   revalidated := revalidated w @ [''/admin/halls'', ''/halls'']\<rparr>)"
    using Some assms(1,2) by (rule toggleHallStatus_found)
  have f1: "find ?P (halls ?w1) = Some ?h'"
    using find_update_first_const [OF Some, of ?h'] P by (simp add: w1)
  have c1: "storeFault ?w1 (storeCalls ?w1) = None"
    "storeFault ?w1 (Suc (storeCalls ?w1)) = None"
    using assms(3,4) by (simp_all add: w1)
  have "halls (snd (toggleHallStatus i ?w1))
          = update_first ?P (\<lambda>_. ?h'\<lparr>h_isActive := \<not> h_isActive ?h'\<rparr>) (halls ?w1)"
    by (simp add: toggleHallStatus_found [OF f1 c1])
  also have "\<dots> = update_first ?P (\<lambda>_. h) (update_first ?P (\<lambda>_. ?h') (halls w))"
    by (simp add: w1)
  also have "\<dots> = update_first ?P (\<lambda>_. h) (halls w)"
    using update_first_const_twice [OF Some, of ?h' h] P by simp
  also have "\<dots> = halls w"
    using Some by (rule update_first_same)
  finally show ?thesis .
qed


lemma toggleFoodItemAvailability_found:
  assumes "find (\<lambda>h. f_id h = i) (foodItems w) = Some h"
    and "storeFault w (storeCalls w) = None"
    and "storeFault w (Suc (storeCalls w)) = None"
  shows "toggleFoodItemAvailability i w
           = (Inr (Data (h\<lparr>f_isAvailable := \<not> f_isAvailable h\<rparr>)),
              w\<lparr>storeCalls := Suc (Suc (storeCalls w)),
                foodItems := update_first (\<lambda>h. f_id h = i) (\<lambda>_. h\<lparr>f_isAvailable := \<not> f_isAvailable h\<rparr>) (foodItems w),
                revalidated := revalidated w @ [''/admin/food-items'', ''/booking'']\<rparr>)"
proof -
  let ?u = "\<lparr>fi_name = None, fi_category = None, fi_price = None, fi_isVeg = None,
             fi_description = None, fi_image = None,
             fi_isAvailable = Some (\<not> f_isAvailable h)\<rparr>"
  have a: "applyFoodItemUpdate ?u h = h\<lparr>f_isAvailable := \<not> f_isAvailable h\<rparr>"
    by (simp add: applyFoodItemUpdate_def setOrKeep_def)
  have u: "update_first (\<lambda>h. f_id h = i) (applyFoodItemUpdate ?u) (foodItems w)
             = update_first (\<lambda>h. f_id h = i) (\<lambda>_. h\<lparr>f_isAvailable := \<not> f_isAvailable h\<rparr>) (foodItems w)"
    using update_first_const [OF assms(1), of "applyFoodItemUpdate ?u"] by (simp only: a)
  show ?thesis
    using assms
    by (simp add: toggleFoodItemAvailability_def foodItem_findUnique_def foodItem_update_def action_defs u a)
qed

lemma toggleFoodItemAvailability_missing:
  assumes "find (\<lambda>h. f_id h = i) (foodItems w) = None"
    and "storeFault w (storeCalls w) = None"
  shows "toggleFoodItemAvailability i w
           = (Inr (Failure ''Food item not found''), w\<lparr>storeCalls := Suc (storeCalls w)\<rparr>)"
  using assms
  by (simp add: toggleFoodItemAvailability_def foodItem_findUnique_def action_defs)

lemma toggleFoodItemAvailability_twice:
  assumes "storeFault w (storeCalls w) = None"
    and "storeFault w (Suc (storeCalls w)) = None"
    and "storeFault w (Suc (Suc (storeCalls w))) = None"
    and "storeFault w (Suc (Suc (Suc (storeCalls w)))) = None"
  shows "foodItems (snd (toggleFoodItemAvailability i (snd (toggleFoodItemAvailability i w)))) = foodItems w"
proof (cases "find (\<lambda>h. f_id h = i) (foodItems w)")
  case None
  then show ?thesis
    using assms by (simp add: toggleFoodItemAvailability_missing)
next
  case (Some h)
  let ?P = "\<lambda>h. f_id h = i"
  let ?h' = "h\<lparr>f_isAvailable := \<not> f_isAvailable h\<rparr>"
  let ?w1 = "snd (toggleFoodItemAvailability i w)"
  have P: "?P h" using Some by (rule find_Some_holds)
  have w1: "toggleFoodItemAvailability i w
              = (Inr (Data ?h'),
                 w\<lparr>storeCalls := Suc (Suc (storeCalls w)),
                   foodItems := update_first ?P (\<lambda>_. ?h') (foodItems w),
                   revalidated := revalidated w @ [''/admin/food-items'', ''/booking'']\<rparr>)"
    using Some assms(1,2) by (rule toggleFoodItemAvailability_found)
  have f1: "find ?P (foodItems ?w1) = Some ?h'"
    using find_update_first_const [OF Some, of ?h'] P by (simp add: w1)
  have c1: "storeFault ?w1 (storeCalls ?w1) = None"
    "storeFault ?w1 (Suc (storeCalls ?w1)) = None"
    using assms(3,4) by (simp_all add: w1)
  have "foodItems (snd (toggleFoodItemAvailability i ?w1))
          = update_first ?P (\<lambda>_. ?h'\<lparr>f_isAvailable := \<not> f_isAvailable ?h'\<rparr>) (foodItems ?w1)"
    by (simp add: toggleFoodItemAvailability_found [OF f1 c1])
  also have "\<dots> = update_first ?P (\<lambda>_. h) (update_first ?P (\<lambda>_. ?h') (foodItems w))"
    by (simp add: w1)
  also have "\<dots> = update_first ?P (\<lambda>_. h) (foodItems w)"
    using update_first_const_twice [OF Some, of ?h' h] P by simp
  also have "\<dots> = foodItems w"
    using Some by (rule update_first_same)
  finally show ?thesis .
qed


lemma toggleThemeAvailability_found:
  assumes "find (\<lambda>h. t_id h = i) (themes w) = Some h"
    and "storeFault w (storeCalls w) = None"
    and "storeFault w (Suc (storeCalls w)) = None"
  shows "toggleThemeAvailability i w
           = (Inr (Data (h\<lparr>t_isAvailable := \<not> t_isAvailable h\<rparr>)),
              w\<lparr>storeCalls := Suc (Suc (storeCalls w)),
                themes := update_first (\<lambda>h. t_id h = i) (\<lambda>_. h\<lparr>t_isAvailable := \<not> t_isAvailable h\<rparr>) (themes w),
                revalidated := revalidated w @ [''/admin/themes'', ''/booking'']\<rparr>)"
proof -
  let ?u = "\<lparr>ti_name = None, ti_description = None, ti_price = None,
             ti_images = None,
             ti_isAvailable = Some (\<not> t_isAvailable h)\<rparr>"
  have a: "applyThemeUpdate ?u h = h\<lparr>t_isAvailable := \<not> t_isAvailable h\<rparr>"
    by (simp add: applyThemeUpdate_def setOrKeep_def)
  have u: "update_first (\<lambda>h. t_id h = i) (applyThemeUpdate ?u) (themes w)
             = update_first (\<lambda>h. t_id h = i) (\<lambda>_. h\<lparr>t_isAvailable := \<not> t_isAvailable h\<rparr>) (themes w)"
    using update_first_const [OF assms(1), of "applyThemeUpdate ?u"] by (simp only: a)
  show ?thesis
    using assms
    by (simp add: toggleThemeAvailability_def theme_findUnique_def theme_update_def action_defs u a)
qed

lemma toggleThemeAvailability_missing:
  assumes "find (\<lambda>h. t_id h = i) (themes w) = None"
    and "storeFault w (storeCalls w) = None"
  shows "toggleThemeAvailability i w
           = (Inr (Failure ''Theme not found''), w\<lparr>storeCalls := Suc (storeCalls w)\<rparr>)"
  using assms
  by (simp add: toggleThemeAvailability_def theme_findUnique_def action_defs)

lemma toggleThemeAvailability_twice:
  assumes "storeFault w (storeCalls w) = None"
    and "storeFault w (Suc (storeCalls w)) = None"
    and "storeFault w (Suc (Suc (storeCalls w))) = None"
    and "storeFault w (Suc (Suc (Suc (storeCalls w)))) = None"
  shows "themes (snd (toggleThemeAvailability i (snd (toggleThemeAvailability i w)))) = themes w"
proof (cases "find (\<lambda>h. t_id h = i) (themes w)")
  case None
  then show ?thesis
    using assms by (simp add: toggleThemeAvailability_missing)
next
  case (Some h)
  let ?P = "\<lambda>h. t_id h = i"
  let ?h' = "h\<lparr>t_isAvailable := \<not> t_isAvailable h\<rparr>"
  let ?w1 = "snd (toggleThemeAvailability i w)"
  have P: "?P h" using Some by (rule find_Some_holds)
  have w1: "toggleThemeAvailability i w
              = (Inr (Data ?h'),
                 w\<lparr>storeCalls := Suc (Suc (storeCalls w)),
                   themes := update_first ?P (\<lambda>_. ?h') (themes w),
                   revalidated := revalidated w @ [''/admin/themes'', ''/booking'']\<rparr>)"
    using Some assms(1,2) by (rule toggleThemeAvailability_found)
  have f1: "find ?P (themes ?w1) = Some ?h'"
    using find_update_first_const [OF Some, of ?h'] P by (simp add: w1)
  have c1: "storeFault ?w1 (storeCalls ?w1) = None"
    "storeFault ?w1 (Suc (storeCalls ?w1)) = None"
    using assms(3,4) by (simp_all add: w1)
  have "themes (snd (toggleThemeAvailability i ?w1))
          = update_first ?P (\<lambda>_. ?h'\<lparr>t_isAvailable := \<not> t_isAvailable ?h'\<rparr>) (themes ?w1)"
    by (simp add: toggleThemeAvailability_found [OF f1 c1])
  also have "\<dots> = update_first ?P (\<lambda>_. h) (update_first ?P (\<lambda>_. ?h') (themes w))"
    by (simp add: w1)
  also have "\<dots> = update_first ?P (\<lambda>_. h) (themes w)"
    using update_first_const_twice [OF Some, of ?h' h] P by simp
  also have "\<dots> = themes w"
    using Some by (rule update_first_same)
  finally show ?thesis .
qed


text \<open>
  Claim C7. When the store does not throw, applying \<^verbatim>\<open>toggleHallStatus\<close>,
  \<^verbatim>\<open>toggleFoodItemAvailability\<close> or \<^verbatim>\<open>toggleThemeAvailability\<close> twice in succession
  to the same id leaves the table, and so the flag of the entity, as it was; one
  application negates the flag of the entity with that id.
\<close>

theorem toggle_twice_restores:
  assumes "storeFault w (storeCalls w) = None"
    and "storeFault w (Suc (storeCalls w)) = None"
    and "storeFault w (Suc (Suc (storeCalls w))) = None"
    and "storeFault w (Suc (Suc (Suc (storeCalls w)))) = None"
  shows "halls (snd (toggleHallStatus i (snd (toggleHallStatus i w)))) = halls w
       \<and> foodItems (snd (toggleFoodItemAvailability i (snd (toggleFoodItemAvailability i w))))
           = foodItems w
       \<and> themes (snd (toggleThemeAvailability i (snd (toggleThemeAvailability i w)))) = themes w
       \<and> (find (\<lambda>h. h_id h = i) (halls w) = Some h \<longrightarrow>
            find (\<lambda>h. h_id h = i) (halls (snd (toggleHallStatus i w)))
              = Some (h\<lparr>h_isActive := \<not> h_isActive h\<rparr>))
       \<and> (find (\<lambda>x. f_id x = i) (foodItems w) = Some x \<longrightarrow>
            find (\<lambda>x. f_id x = i) (foodItems (snd (toggleFoodItemAvailability i w)))
              = Some (x\<lparr>f_isAvailable := \<not> f_isAvailable x\<rparr>))
       \<and> (find (\<lambda>t. t_id t = i) (themes w) = Some t \<longrightarrow>
            find (\<lambda>t. t_id t = i) (themes (snd (toggleThemeAvailability i w)))
              = Some (t\<lparr>t_isAvailable := \<not> t_isAvailable t\<rparr>))"
proof -
  have h1: "find (\<lambda>h. h_id h = i) (halls (snd (toggleHallStatus i w)))
              = Some (h\<lparr>h_isActive := \<not> h_isActive h\<rparr>)"
    if f: "find (\<lambda>h. h_id h = i) (halls w) = Some h"
    using find_update_first_const [OF f, of "h\<lparr>h_isActive := \<not> h_isActive h\<rparr>"]
      find_Some_holds [OF f]
    by (simp add: toggleHallStatus_found [OF f assms(1,2)])
  have h2: "find (\<lambda>x. f_id x = i) (foodItems (snd (toggleFoodItemAvailability i w)))
              = Some (x\<lparr>f_isAvailable := \<not> f_isAvailable x\<rparr>)"
    if f: "find (\<lambda>x. f_id x = i) (foodItems w) = Some x"
    using find_update_first_const [OF f, of "x\<lparr>f_isAvailable := \<not> f_isAvailable x\<rparr>"]
      find_Some_holds [OF f]
    by (simp add: toggleFoodItemAvailability_found [OF f assms(1,2)])
  have h3: "find (\<lambda>t. t_id t = i) (themes (snd (toggleThemeAvailability i w)))
              = Some (t\<lparr>t_isAvailable := \<not> t_isAvailable t\<rparr>)"
    if f: "find (\<lambda>t. t_id t = i) (themes w) = Some t"
    using find_update_first_const [OF f, of "t\<lparr>t_isAvailable := \<not> t_isAvailable t\<rparr>"]
      find_Some_holds [OF f]
    by (simp add: toggleThemeAvailability_found [OF f assms(1,2)])
  show ?thesis
    using toggleHallStatus_twice [OF assms] toggleFoodItemAvailability_twice [OF assms]
      toggleThemeAvailability_twice [OF assms] h1 h2 h3
    by blast
qed

text \<open>Hall A, a dish and a theme, each toggled once and twice.\<close>

theorem toggle_twice_restores_witness:
  "find (\<lambda>h. h_id h = ''hall-a'') (halls (snd (toggleHallStatus ''hall-a'' cateringWorld)))
      = Some (hallA\<lparr>h_isActive := False\<rparr>)
   \<and> halls (snd (toggleHallStatus ''hall-a'' (snd (toggleHallStatus ''hall-a'' cateringWorld))))
      = [hallA]
   \<and> find (\<lambda>x. f_id x = ''food-1'')
        (foodItems (snd (toggleFoodItemAvailability ''food-1'' cateringWorld)))
      = Some (paneer\<lparr>f_isAvailable := False\<rparr>)
   \<and> foodItems (snd (toggleFoodItemAvailability ''food-1''
                       (snd (toggleFoodItemAvailability ''food-1'' cateringWorld))))
      = [paneer]
   \<and> find (\<lambda>t. t_id t = ''theme-1'')
        (themes (snd (toggleThemeAvailability ''theme-1'' cateringWorld)))
      = Some (royal\<lparr>t_isAvailable := True\<rparr>)
   \<and> themes (snd (toggleThemeAvailability ''theme-1''
                    (snd (toggleThemeAvailability ''theme-1'' cateringWorld))))
      = [royal]"
proof -
  have a: "storeFault cateringWorld (storeCalls cateringWorld) = None"
    "storeFault cateringWorld (Suc (storeCalls cateringWorld)) = None"
    "storeFault cateringWorld (Suc (Suc (storeCalls cateringWorld))) = None"
    "storeFault cateringWorld (Suc (Suc (Suc (storeCalls cateringWorld)))) = None"
    by (simp_all add: cateringWorld_def scenarioWorld_def)
  have f: "find (\<lambda>h. h_id h = ''hall-a'') (halls cateringWorld) = Some hallA"
    "find (\<lambda>x. f_id x = ''food-1'') (foodItems cateringWorld) = Some paneer"
    "find (\<lambda>t. t_id t = ''theme-1'') (themes cateringWorld) = Some royal"
    by (simp_all add: cateringWorld_def scenarioWorld_def hallA_def paneer_def royal_def)
  have v: "h_isActive hallA = True" "f_isAvailable paneer = True" "t_isAvailable royal = False"
    "halls cateringWorld = [hallA]" "foodItems cateringWorld = [paneer]"
    "themes cateringWorld = [royal]"
    by (simp_all add: cateringWorld_def scenarioWorld_def hallA_def paneer_def royal_def)
  from toggle_twice_restores [OF a, of "''hall-a''" hallA]
    toggle_twice_restores [OF a, of "''food-1''" _ paneer]
    toggle_twice_restores [OF a, of "''theme-1''" _ _ royal]
    f v
  show ?thesis by simp
qed

subsection \<open>C5: one overlap rule for both availability queries\<close>

text \<open>The two \<^verbatim>\<open>where\<close> objects, written with the vocabulary of the specification.\<close>

lemma createBooking_where_fst:
  "fst (createBooking_where rt v) b
     = (hallId b = in_hallId v
        \<and> (setHours rt (in_eventDate v) 0 0 0 0 \<le> eventDate b
           \<and> eventDate b \<le> setHours rt (setHours rt (in_eventDate v) 0 0 0 0) 23 59 59 999)
        \<and> activeBooking b
        \<and> slotsOverlap (in_timeSlot v) (timeSlot b))"
proof -
  have slot: "list_ex (\<lambda>s. timeSlot b = s)
                ([in_timeSlot v, ''Full Day'']
                 @ (if in_timeSlot v = ''Full Day'' then [''Morning'', ''Evening''] else []))
              = slotsOverlap (in_timeSlot v) (timeSlot b)"
    by (auto simp: slotsOverlap_def timeSlots_def)
  have "fst (createBooking_where rt v) b
          = (hallId b = in_hallId v
             \<and> (setHours rt (in_eventDate v) 0 0 0 0 \<le> eventDate b
               \<and> eventDate b \<le> setHours rt (setHours rt (in_eventDate v) 0 0 0 0) 23 59 59 999)
             \<and> status b \<in> {CONFIRMED, PENDING}
             \<and> list_ex (\<lambda>s. timeSlot b = s)
                ([in_timeSlot v, ''Full Day'']
                 @ (if in_timeSlot v = ''Full Day'' then [''Morning'', ''Evening''] else [])))"
    by (simp add: createBooking_where_def Let_def)
  then show ?thesis
    unfolding slot by (auto simp: activeBooking_def)
qed

lemma checkHallAvailability_where_eq:
  "checkHallAvailability_where rt hid date slot b
     = (hallId b = hid
        \<and> (setHours rt date 0 0 0 0 \<le> eventDate b
           \<and> eventDate b \<le> setHours rt date 23 59 59 999)
        \<and> activeBooking b
        \<and> slotsOverlap slot (timeSlot b))"
proof -
  have slot: "list_ex (\<lambda>s. timeSlot b = s)
                ([slot, ''Full Day'']
                 @ (if slot = ''Full Day'' then [''Morning'', ''Evening''] else []))
              = slotsOverlap slot (timeSlot b)"
    by (auto simp: slotsOverlap_def timeSlots_def)
  have "checkHallAvailability_where rt hid date slot b
          = (hallId b = hid
             \<and> (setHours rt date 0 0 0 0 \<le> eventDate b
               \<and> eventDate b \<le> setHours rt date 23 59 59 999)
             \<and> status b \<in> {CONFIRMED, PENDING}
             \<and> list_ex (\<lambda>s. timeSlot b = s)
                ([slot, ''Full Day'']
                 @ (if slot = ''Full Day'' then [''Morning'', ''Evening''] else [])))"
    by (simp add: checkHallAvailability_where_def Let_def)
  then show ?thesis
    unfolding slot by (auto simp: activeBooking_def)
qed

lemma checkHallAvailability_where_overlaps:
  assumes "dayBoundsDelimit rt date (eventDate b)"
  shows "checkHallAvailability_where rt hid date slot b = overlaps rt hid date slot b"
  using assms
  by (simp only: checkHallAvailability_where_eq overlaps_def dayBoundsDelimit_def) blast

lemma find_None_list_ex: "(find P xs = None) = (\<not> list_ex P xs)"
  by (induction xs) auto

lemma where_queries_equal:
  assumes "startOfDayOnDay rt (in_eventDate v)"
  shows "fst (createBooking_where rt v)
           = checkHallAvailability_where rt (in_hallId v) (in_eventDate v) (in_timeSlot v)"
  by (rule ext)
     (simp only: createBooking_where_fst checkHallAvailability_where_eq
        setHours_end_after_start [OF assms])

text \<open>On a host with a fixed offset the two predicates are equal without condition.\<close>

lemma fixedZone_queries_equal:
  assumes "localTZA rt = fixedZone offset"
  shows "fst (createBooking_where rt v)
           = checkHallAvailability_where rt (in_hallId v) (in_eventDate v) (in_timeSlot v)"
  using fixedZone_startOfDayOnDay [OF assms] by (rule where_queries_equal)

text \<open>
  Claim C5. The \<^verbatim>\<open>where\<close> predicate of the availability query of \<^verbatim>\<open>createBooking\<close>
  (built with the in-place \<^verbatim>\<open>setHours\<close> calls) is the same predicate as the one of
  \<^verbatim>\<open>checkHallAvailability\<close> for the same hall id, date and slot, so on every bookings
  table the two queries find the same row. The two actions use it as the claim says:
  when the store call does not throw, \<^verbatim>\<open>checkHallAvailability\<close> reports
  \<^verbatim>\<open>isAvailable\<close> false exactly when the query finds a booking, and a valid
  \<^verbatim>\<open>createBooking\<close> request is rejected with the availability error when it does.

  The upper bound of \<^verbatim>\<open>createBooking\<close> is taken on the date that the first
  \<^verbatim>\<open>setHours\<close> has moved to the start of the day, so the host's clock enters: the
  start of day it computes has to lie on the day of the request. That holds on every
  host with a fixed offset (\<open>fixedZone_startOfDayOnDay\<close>) and on every host whose clocks
  change by less than a day (\<open>zoneWithChange_startOfDayOnDay\<close>).
\<close>

theorem availability_queries_agree:
  assumes "startOfDayOnDay rt (in_eventDate v)"
  shows "fst (createBooking_where rt v)
     = checkHallAvailability_where rt (in_hallId v) (in_eventDate v) (in_timeSlot v)
   \<and> find (fst (createBooking_where rt v)) bs
     = find (checkHallAvailability_where rt (in_hallId v) (in_eventDate v) (in_timeSlot v)) bs
   \<and> (storeFault w (storeCalls w) = None \<longrightarrow>
        fst (checkHallAvailability rt (in_hallId v) (in_eventDate v) (in_timeSlot v) w)
          = Inr (Availability
                   (find (fst (createBooking_where rt v)) (bookings w) = None)
                   (if find (fst (createBooking_where rt v)) (bookings w) \<noteq> None
                    then ''Hall is already booked for this date and time''
                    else ''Hall is available'')))
   \<and> (storeFault w (storeCalls w) = None \<and> bookingSchema_issues rt v = []
        \<and> find (checkHallAvailability_where rt (in_hallId v) (in_eventDate v) (in_timeSlot v))
             (bookings w) \<noteq> None \<longrightarrow>
        fst (createBooking rt uid v w)
          = Inr (Failure ''Hall is not available for selected date and time''))"
proof -
  obtain wh validated where cw: "createBooking_where rt v = (wh, validated)"
    by (cases "createBooking_where rt v")
  have wh: "wh = checkHallAvailability_where rt (in_hallId v) (in_eventDate v) (in_timeSlot v)"
    using where_queries_equal [OF assms] cw by simp
  have a: "storeFault w (storeCalls w) = None \<Longrightarrow>
        fst (checkHallAvailability rt (in_hallId v) (in_eventDate v) (in_timeSlot v) w)
          = Inr (Availability
                   (find wh (bookings w) = None)
                   (if find wh (bookings w) \<noteq> None
                    then ''Hall is already booked for this date and time''
                    else ''Hall is available''))"
    by (simp add: checkHallAvailability_def booking_findFirst_def action_defs wh)
  have b: "storeFault w (storeCalls w) = None \<Longrightarrow> bookingSchema_issues rt v = [] \<Longrightarrow>
           find wh (bookings w) \<noteq> None \<Longrightarrow>
           fst (createBooking rt uid v w)
             = Inr (Failure ''Hall is not available for selected date and time'')"
    by (auto simp: createBooking_def bookingSchema_parse_def booking_findFirst_def action_defs cw)
  show ?thesis
    using a b where_queries_equal [OF assms] cw wh by auto
qed

text \<open>
  New York on the day its clocks go back: a pending full-day booking stored at 23:30 and
  a morning request at 00:30 of the same day.
\<close>

theorem availability_queries_agree_witness:
  "fst (checkHallAvailability newYorkRuntime ''hall-a'' 1825561800000 ''Morning''
          (scenarioWorld\<lparr>bookings := [newYorkLateRow]\<rparr>))
     = Inr (Availability False ''Hall is already booked for this date and time'')
   \<and> fst (createBooking newYorkRuntime ''user-2'' newYorkInput
          (scenarioWorld\<lparr>bookings := [newYorkLateRow]\<rparr>))
     = Inr (Failure ''Hall is not available for selected date and time'')"
proof -
  let ?v = "newYorkInput"
  let ?w = "scenarioWorld\<lparr>bookings := [newYorkLateRow]\<rparr>"
  let ?q = "checkHallAvailability_where newYorkRuntime
              (in_hallId ?v) (in_eventDate ?v) (in_timeSlot ?v)"
  have i: "in_hallId ?v = ''hall-a''" "in_eventDate ?v = 1825561800000"
    "in_timeSlot ?v = ''Morning''"
    by (simp_all add: newYorkInput_def scenarioInput_def)
  have d: "startOfDayOnDay newYorkRuntime (in_eventDate ?v)"
    by (rule newYork_startOfDayOnDay)
  note agree = availability_queries_agree [OF d, of "bookings ?w" ?w "''user-2''"]
  have s: "storeFault ?w (storeCalls ?w) = None"
    by (simp add: scenarioWorld_def)
  have v: "bookingSchema_issues newYorkRuntime ?v = []"
    by (simp add: booking_valid_defs newYorkInput_def newYorkRuntime_def)
  have f: "find ?q (bookings ?w) \<noteq> None"
    by (simp add: i checkHallAvailability_where_eq newYork_day_bounds activeBooking_def
          slotsOverlap_def newYorkLateRow_def bookedRow_def)
  have g: "find (fst (createBooking_where newYorkRuntime ?v)) (bookings ?w) \<noteq> None"
    using agree f by metis
  have c: "fst (checkHallAvailability newYorkRuntime
                  (in_hallId ?v) (in_eventDate ?v) (in_timeSlot ?v) ?w)
             = Inr (Availability False ''Hall is already booked for this date and time'')"
    using agree s g by (simp only: simp_thms if_True)
  have b: "fst (createBooking newYorkRuntime ''user-2'' ?v ?w)
             = Inr (Failure ''Hall is not available for selected date and time'')"
    using agree s v f by blast
  from c b show ?thesis
    by (simp only: i)
qed

subsection \<open>C9: the persisted event date\<close>

text \<open>
  Claim C9 says that the persisted event date is on the calendar day of the input, at
  23:59:59.999. On the host in Nuuk the Saturday of the request has no such local time:
  \<^verbatim>\<open>setHours(23, 59, 59, 999)\<close> yields 00:59:59.999 of the Sunday, and that is what
  the created row holds.
\<close>

theorem createBooking_eventDate_next_day:
  "map eventDate (bookings (snd (createBooking nuukRuntime ''user-1'' nuukInput scenarioWorld)))
     = [1806199199999]
   \<and> localDay nuukRuntime (in_eventDate nuukInput) = 20904
   \<and> localDay nuukRuntime 1806199199999 = 20905
   \<and> timeOfDay nuukRuntime 1806199199999 = 3599999"
proof -
  have run: "map eventDate
               (bookings (snd (createBooking nuukRuntime ''user-1'' nuukInput scenarioWorld)))
             = [1806199199999]"
    by (simp add: createBooking_eval scenario_defs nuukInput_def nuukRuntime_def host_eval)
  have d: "in_eventDate nuukInput = 1806156000000"
    by (simp add: nuukInput_def)
  show ?thesis
    using run by (simp add: d nuuk_day_bounds)
qed

text \<open>
  Claim C9, amended. Whenever \<^verbatim>\<open>createBooking\<close> succeeds, the event date of the created
  (and appended) row is not the input date but what the two in-place \<^verbatim>\<open>setHours\<close>
  calls of the availability check leave in it: \<^verbatim>\<open>setHours(23, 59, 59, 999)\<close> applied
  after \<^verbatim>\<open>setHours(0, 0, 0, 0)\<close>. On a host where the start of day so computed lies on
  the day of the input and the end of day so computed shows 23:59:59.999 of that day, it
  is on the local calendar day of the input, at 23:59:59.999. Both hold on every host
  with a fixed offset, and on a host whose clocks change once on every day whose bounds
  the change does not straddle (\<open>zoneWithChange_dayBoundsDelimit\<close>).
\<close>

theorem createBooking_eventDate:
  assumes "createBooking rt uid input w = (Inr (Data created), w')"
  shows "eventDate created
           = setHours rt (setHours rt (in_eventDate input) 0 0 0 0) 23 59 59 999
       \<and> bookings w' = bookings w @ [created]
       \<and> (startOfDayOnDay rt (in_eventDate input) \<and> endOfDayKept rt (in_eventDate input)
            \<longrightarrow> localDay rt (eventDate created) = localDay rt (in_eventDate input)
              \<and> timeOfDay rt (eventDate created) = ((23 * 60 + 59) * 60 + 59) * 1000 + 999)"
proof -
  have e: "eventDate created
             = setHours rt (setHours rt (in_eventDate input) 0 0 0 0) 23 59 59 999
           \<and> bookings w' = bookings w @ [created]"
    using assms
    unfolding createBooking_def booking_findFirst_def hall_findUnique_def booking_create_def
      generateBookingNumber_def
    by (auto simp: action_defs Let_def createBooking_where_snd bookingSchema_parse_def
          split: sum.splits prod.splits option.splits if_splits exn.splits list.splits
          dest!: arg_cong[where f=snd and x="createBooking_where _ _"])
  have t: "((23 * 60 + 59) * 60 + 59) * 1000 + 999 = msPerDay - 1"
    by (simp add: msPerDay_def)
  have k: "localDay rt (eventDate created) = localDay rt (in_eventDate input)
           \<and> timeOfDay rt (eventDate created) = ((23 * 60 + 59) * 60 + 59) * 1000 + 999"
    if s: "startOfDayOnDay rt (in_eventDate input)"
      and n: "endOfDayKept rt (in_eventDate input)"
  proof -
    have "eventDate created = setHours rt (in_eventDate input) 23 59 59 999"
      using e by (simp only: setHours_end_after_start [OF s])
    then show ?thesis
      by (simp only: localDay_setHours_end [OF n] timeOfDay_setHours_end [OF n] t)
  qed
  show ?thesis
    using e k by blast
qed

text \<open>
  New York on the day its clocks go back: a request at 00:30 is stored at 23:59:59.999
  of that day, 25 hours after its midnight.
\<close>

theorem createBooking_eventDate_witness:
  "\<exists>created w'. createBooking newYorkRuntime ''user-1'' newYorkInput scenarioWorld
                    = (Inr (Data created), w')
                 \<and> in_eventDate newYorkInput = 1825561800000
                 \<and> timeOfDay newYorkRuntime (in_eventDate newYorkInput) = 1800000
                 \<and> eventDate created = 1825649999999
                 \<and> localDay newYorkRuntime (eventDate created)
                     = localDay newYorkRuntime (in_eventDate newYorkInput)
                 \<and> timeOfDay newYorkRuntime (eventDate created) = 86399999"
proof -
  have "\<exists>created w'. createBooking newYorkRuntime ''user-1'' newYorkInput scenarioWorld
                        = (Inr (Data created), w')"
    by (simp add: createBooking_eval scenario_defs newYorkInput_def newYorkRuntime_def
          host_eval)
  then obtain created w' where
    run: "createBooking newYorkRuntime ''user-1'' newYorkInput scenarioWorld
            = (Inr (Data created), w')"
    by blast
  have d: "in_eventDate newYorkInput = 1825561800000"
    by (simp add: newYorkInput_def)
  have s: "startOfDayOnDay newYorkRuntime (in_eventDate newYorkInput)"
    by (rule newYork_startOfDayOnDay)
  have n: "endOfDayKept newYorkRuntime (in_eventDate newYorkInput)"
    unfolding d by (rule newYork_endOfDayKept)
  from createBooking_eventDate [OF run] s n
  have r: "eventDate created
             = setHours newYorkRuntime
                 (setHours newYorkRuntime (in_eventDate newYorkInput) 0 0 0 0) 23 59 59 999"
    "localDay newYorkRuntime (eventDate created)
       = localDay newYorkRuntime (in_eventDate newYorkInput)"
    "timeOfDay newYorkRuntime (eventDate created) = ((23 * 60 + 59) * 60 + 59) * 1000 + 999"
    by blast+
  have v: "eventDate created = 1825649999999"
    using r(1) setHours_end_after_start [OF s] by (simp add: d newYork_day_bounds)
  have t: "timeOfDay newYorkRuntime (in_eventDate newYorkInput) = 1800000"
    by (simp add: d timeOfDay_def newYork_times msPerDay_def)
  from run d t v r(2,3) show ?thesis
    by simp
qed

subsection \<open>C1: overlapping requests are rejected, the others succeed\<close>

lemma list_ex_overlaps:
  assumes s: "startOfDayOnDay rt (in_eventDate v)"
    and d: "list_all (\<lambda>b. dayBoundsDelimit rt (in_eventDate v) (eventDate b)) bs"
  shows "list_ex (fst (createBooking_where rt v)) bs
           = list_ex (overlaps rt (in_hallId v) (in_eventDate v) (in_timeSlot v)) bs"
  using d
proof (induction bs)
  case Nil
  then show ?case by simp
next
  case (Cons b bs)
  then have "dayBoundsDelimit rt (in_eventDate v) (eventDate b)" by simp
  then have "fst (createBooking_where rt v) b
               = overlaps rt (in_hallId v) (in_eventDate v) (in_timeSlot v) b"
    by (simp only: where_queries_equal [OF s] checkHallAvailability_where_overlaps)
  with Cons show ?case by simp
qed

text \<open>
  Claim C1 says that a request with no overlapping active booking, for an existing hall,
  succeeds. On the host in Nuuk, a valid request for the Saturday is rejected because of
  a pending booking stored at 00:30 of the Sunday: the upper bound of the query is
  00:59:59.999 of the Sunday. The booking is on another calendar day, so it does not
  overlap the request.
\<close>

theorem createBooking_rejects_other_day:
  "fst (createBooking nuukRuntime ''user-2'' nuukInput
          (scenarioWorld\<lparr>bookings := [nuukSundayRow]\<rparr>))
     = Inr (Failure ''Hall is not available for selected date and time'')
   \<and> bookingSchema_issues nuukRuntime nuukInput = []
   \<and> find (\<lambda>h. h_id h = in_hallId nuukInput)
        (halls (scenarioWorld\<lparr>bookings := [nuukSundayRow]\<rparr>)) = Some hallA
   \<and> localDay nuukRuntime (in_eventDate nuukInput) = 20904
   \<and> localDay nuukRuntime (eventDate nuukSundayRow) = 20905
   \<and> \<not> list_ex (overlaps nuukRuntime (in_hallId nuukInput) (in_eventDate nuukInput)
                  (in_timeSlot nuukInput))
          (bookings (scenarioWorld\<lparr>bookings := [nuukSundayRow]\<rparr>))"
proof -
  have d: "in_eventDate nuukInput = 1806156000000"
    "eventDate nuukSundayRow = 1806197400000"
    by (simp_all add: nuukInput_def nuukSundayRow_def bookedRow_def)
  have run: "fst (createBooking nuukRuntime ''user-2'' nuukInput
                    (scenarioWorld\<lparr>bookings := [nuukSundayRow]\<rparr>))
               = Inr (Failure ''Hall is not available for selected date and time'')"
    by (simp add: createBooking_eval scenario_defs nuukInput_def nuukRuntime_def
          nuukSundayRow_def bookedRow_def host_eval)
  have v: "bookingSchema_issues nuukRuntime nuukInput = []"
    by (simp add: booking_valid_defs nuukInput_def nuukRuntime_def)
  have h: "find (\<lambda>h. h_id h = in_hallId nuukInput)
             (halls (scenarioWorld\<lparr>bookings := [nuukSundayRow]\<rparr>)) = Some hallA"
    by (simp add: scenario_defs nuukInput_def)
  have o: "\<not> list_ex (overlaps nuukRuntime (in_hallId nuukInput) (in_eventDate nuukInput)
                  (in_timeSlot nuukInput))
          (bookings (scenarioWorld\<lparr>bookings := [nuukSundayRow]\<rparr>))"
    by (simp add: overlaps_def d nuuk_day_bounds)
  show ?thesis
    using run v h o by (simp add: d nuuk_day_bounds)
qed

text \<open>
  Claim C1, amended. For a request that passes the booking schema, on a host where the
  start of day computed by \<^verbatim>\<open>setHours\<close> lies on the day of the request and the two day
  bounds delimit that calendar day for the dates stored in the table: if the store call
  does not throw and some booking of the requested hall is active (CONFIRMED or
  PENDING), on the same calendar day, with an overlapping slot (``Full Day'' overlaps
  every slot, ``Morning'' and ``Evening'' overlap the same slot and ``Full Day''), then
  \<^verbatim>\<open>createBooking\<close> returns the failure ``Hall is not available for selected date and
  time'' and the bookings table is as before; if no booking overlaps, the hall exists
  and none of the three store calls throws, it succeeds and appends the created booking
  (of that hall and slot, with status PENDING) to the table. The condition on the host
  holds for every date on a host with a fixed offset (\<open>fixedZone_dayBoundsDelimit\<close>),
  and on a host whose clocks change once for every day whose bounds the change does not
  straddle (\<open>zoneWithChange_dayBoundsDelimit\<close>), such as the long day in New York.
\<close>

theorem createBooking_availability:
  assumes "bookingSchema_issues rt input = []"
    and "startOfDayOnDay rt (in_eventDate input)"
    and "list_all (\<lambda>b. dayBoundsDelimit rt (in_eventDate input) (eventDate b)) (bookings w)"
  shows "(storeFault w (storeCalls w) = None
          \<and> list_ex (overlaps rt (in_hallId input) (in_eventDate input) (in_timeSlot input))
                (bookings w)
          \<longrightarrow> fst (createBooking rt uid input w)
                = Inr (Failure ''Hall is not available for selected date and time'')
              \<and> bookings (snd (createBooking rt uid input w)) = bookings w)
       \<and> (storeFault w (storeCalls w) = None
          \<and> storeFault w (Suc (storeCalls w)) = None
          \<and> storeFault w (Suc (Suc (storeCalls w))) = None
          \<and> \<not> list_ex (overlaps rt (in_hallId input) (in_eventDate input) (in_timeSlot input))
                  (bookings w)
          \<and> find (\<lambda>h. h_id h = in_hallId input) (halls w) \<noteq> None
          \<longrightarrow> (\<exists>created.
                 fst (createBooking rt uid input w) = Inr (Data created)
               \<and> bookings (snd (createBooking rt uid input w)) = bookings w @ [created]
               \<and> hallId created = in_hallId input
               \<and> timeSlot created = in_timeSlot input
               \<and> status created = PENDING
               \<and> paymentStatus created = PAY_PENDING))"
proof -
  obtain wh validated where cw: "createBooking_where rt input = (wh, validated)"
    by (cases "createBooking_where rt input")
  have ex: "list_ex wh (bookings w)
              = list_ex (overlaps rt (in_hallId input) (in_eventDate input) (in_timeSlot input))
                  (bookings w)"
    using list_ex_overlaps [OF assms(2,3)] cw by simp
  have va: "validated
              = input\<lparr>in_eventDate :=
                        setHours rt (setHours rt (in_eventDate input) 0 0 0 0) 23 59 59 999\<rparr>"
    using createBooking_where_snd [of rt input] cw by simp
  have found: "find wh (bookings w) \<noteq> None" if "list_ex wh (bookings w)"
    using that by (simp add: find_None_list_ex)
  have none: "find wh (bookings w) = None" if "\<not> list_ex wh (bookings w)"
    using that by (simp add: find_None_list_ex)
  have reject: "fst (createBooking rt uid input w)
                  = Inr (Failure ''Hall is not available for selected date and time'')
                \<and> bookings (snd (createBooking rt uid input w)) = bookings w"
    if "storeFault w (storeCalls w) = None" and "list_ex wh (bookings w)"
    using that(1) found [OF that(2)] assms(1)
    by (auto simp: createBooking_def bookingSchema_parse_def booking_findFirst_def action_defs cw)
  have accept: "\<exists>created.
                 fst (createBooking rt uid input w) = Inr (Data created)
               \<and> bookings (snd (createBooking rt uid input w)) = bookings w @ [created]
               \<and> hallId created = in_hallId input
               \<and> timeSlot created = in_timeSlot input
               \<and> status created = PENDING
               \<and> paymentStatus created = PAY_PENDING"
    if "storeFault w (storeCalls w) = None" and "storeFault w (Suc (storeCalls w)) = None"
      and "storeFault w (Suc (Suc (storeCalls w))) = None"
      and "\<not> list_ex wh (bookings w)"
      and "find (\<lambda>h. h_id h = in_hallId input) (halls w) \<noteq> None"
    using that(1,2,3,5) none [OF that(4)] assms(1)
    by (auto simp: createBooking_def bookingSchema_parse_def booking_findFirst_def
          hall_findUnique_def booking_create_def generateBookingNumber_def action_defs
          Let_def cw va
          split: prod.splits)
  show ?thesis
    using reject accept unfolding ex by blast
qed

text \<open>
  New York on the day its clocks go back: a morning request at 00:30 against a booking
  stored at 23:30 of the same day, pending and then cancelled.
\<close>

theorem createBooking_availability_witness:
  "fst (createBooking newYorkRuntime ''user-2'' newYorkInput
          (scenarioWorld\<lparr>bookings := [newYorkLateRow]\<rparr>))
     = Inr (Failure ''Hall is not available for selected date and time'')
   \<and> bookings (snd (createBooking newYorkRuntime ''user-2'' newYorkInput
                      (scenarioWorld\<lparr>bookings := [newYorkLateRow]\<rparr>)))
     = [newYorkLateRow]
   \<and> (\<exists>created.
        fst (createBooking newYorkRuntime ''user-2'' newYorkInput
               (scenarioWorld\<lparr>bookings := [newYorkLateRow\<lparr>status := CANCELLED\<rparr>]\<rparr>))
          = Inr (Data created)
        \<and> bookings (snd (createBooking newYorkRuntime ''user-2'' newYorkInput
                           (scenarioWorld\<lparr>bookings := [newYorkLateRow\<lparr>status := CANCELLED\<rparr>]\<rparr>)))
          = [newYorkLateRow\<lparr>status := CANCELLED\<rparr>, created]
        \<and> status created = PENDING)"
proof -
  let ?v = "newYorkInput"
  let ?w1 = "scenarioWorld\<lparr>bookings := [newYorkLateRow]\<rparr>"
  let ?w2 = "scenarioWorld\<lparr>bookings := [newYorkLateRow\<lparr>status := CANCELLED\<rparr>]\<rparr>"
  let ?o = "overlaps newYorkRuntime (in_hallId ?v) (in_eventDate ?v) (in_timeSlot ?v)"
  have d: "in_eventDate ?v = 1825561800000"
    by (simp add: newYorkInput_def)
  have v: "bookingSchema_issues newYorkRuntime ?v = []"
    by (simp add: booking_valid_defs newYorkInput_def newYorkRuntime_def)
  have s: "startOfDayOnDay newYorkRuntime (in_eventDate ?v)"
    by (rule newYork_startOfDayOnDay)
  have b1: "list_all (\<lambda>b. dayBoundsDelimit newYorkRuntime (in_eventDate ?v) (eventDate b))
              (bookings ?w1)"
    by (simp add: d newYork_dayBoundsDelimit)
  have b2: "list_all (\<lambda>b. dayBoundsDelimit newYorkRuntime (in_eventDate ?v) (eventDate b))
              (bookings ?w2)"
    by (simp add: d newYork_dayBoundsDelimit)
  have s1: "storeFault ?w1 (storeCalls ?w1) = None"
    by (simp add: scenarioWorld_def)
  have s2: "storeFault ?w2 (storeCalls ?w2) = None"
    "storeFault ?w2 (Suc (storeCalls ?w2)) = None"
    "storeFault ?w2 (Suc (Suc (storeCalls ?w2))) = None"
    by (simp_all add: scenarioWorld_def)
  have day: "localDay newYorkRuntime 1825648200000 = 21129"
    by (simp add: localDay_def newYork_times msPerDay_def)
  have o1: "list_ex ?o (bookings ?w1)"
    by (simp add: overlaps_def activeBooking_def slotsOverlap_def d day newYork_day_bounds
          newYorkInput_def scenarioInput_def newYorkLateRow_def bookedRow_def)
  have o2: "\<not> list_ex ?o (bookings ?w2)"
    by (simp add: overlaps_def activeBooking_def newYorkLateRow_def bookedRow_def)
  have h2: "find (\<lambda>h. h_id h = in_hallId ?v) (halls ?w2) \<noteq> None"
    by (simp add: scenario_defs newYorkInput_def)
  have b: "bookings ?w1 = [newYorkLateRow]"
    "bookings ?w2 = [newYorkLateRow\<lparr>status := CANCELLED\<rparr>]"
    by simp_all
  from createBooking_availability [OF v s b1, of "''user-2''"] s1 o1
  have r1: "fst (createBooking newYorkRuntime ''user-2'' ?v ?w1)
              = Inr (Failure ''Hall is not available for selected date and time'')
            \<and> bookings (snd (createBooking newYorkRuntime ''user-2'' ?v ?w1)) = bookings ?w1"
    by blast
  from createBooking_availability [OF v s b2, of "''user-2''"] s2 o2 h2
  have r2: "\<exists>created.
              fst (createBooking newYorkRuntime ''user-2'' ?v ?w2) = Inr (Data created)
            \<and> bookings (snd (createBooking newYorkRuntime ''user-2'' ?v ?w2))
                = bookings ?w2 @ [created]
            \<and> status created = PENDING"
    by blast
  from r1 r2 show ?thesis
    unfolding b by simp
qed

text \<open>
  The scenario of the specification: a ``Full Day'' booking of Hall A is created, then a
  ``Morning'' request for the same day is rejected.
\<close>

lemma scenario_full_day_then_morning:
  "\<exists>first w1.
     createBooking scenarioRuntime ''user-1'' scenarioInput scenarioWorld
       = (Inr (Data first), w1)
     \<and> timeSlot first = ''Full Day''
     \<and> fst (createBooking scenarioRuntime ''user-2''
              (scenarioInput\<lparr>in_timeSlot := ''Morning''\<rparr>) w1)
         = Inr (Failure ''Hall is not available for selected date and time'')"
  by (simp add: createBooking_eval scenario_defs host_eval)

subsection \<open>C6: the actions as error boundaries\<close>

text \<open>An action that is one \<^verbatim>\<open>try\<close> whose \<^verbatim>\<open>catch\<close> logs and returns never throws.\<close>

lemma try_catch_plain:
  "returnsEnvelope
     (try_catch body (\<lambda>error. await (console_error label) (\<lambda>_. return (Failure m)))) w"
  by (simp add: returnsEnvelope_def try_catch_def await_def console_error_def return_def
        split: prod.splits sum.splits)

lemma try_catch_message:
  "returnsEnvelope
     (try_catch body
        (\<lambda>error. await (console_error label) (\<lambda>_.
           case error of
             Error message \<Rightarrow> return (Failure message)
           | NonError _ \<Rightarrow> return (Failure m)))) w"
  by (simp add: returnsEnvelope_def try_catch_def await_def console_error_def return_def
        split: prod.splits sum.splits exn.splits)

lemma bookings_actions_return:
  "returnsEnvelope (createBooking rt uid input) w"
  "returnsEnvelope (getMyBookings uid) w"
  "returnsEnvelope (getBookingById i) w"
  "returnsEnvelope getAllBookings w"
  "returnsEnvelope (updateBookingStatus i st) w"
  "returnsEnvelope (updatePaymentStatus i ps pid) w"
  "returnsEnvelope (cancelBooking i reason) w"
  "returnsEnvelope getBookingStats w"
  unfolding createBooking_def getMyBookings_def getBookingById_def getAllBookings_def
    updateBookingStatus_def updatePaymentStatus_def cancelBooking_def getBookingStats_def
  by (rule try_catch_plain try_catch_message)+

lemma halls_actions_return:
  "returnsEnvelope getActiveHalls w"
  "returnsEnvelope (getHallById i) w"
  "returnsEnvelope getAllHalls w"
  "returnsEnvelope (createHall rt hinput) w"
  "returnsEnvelope (updateHall rt i hinput) w"
  "returnsEnvelope (deleteHall i) w"
  "returnsEnvelope (toggleHallStatus i) w"
  "returnsEnvelope (checkHallAvailability rt i date slot) w"
  unfolding getActiveHalls_def getHallById_def getAllHalls_def createHall_def updateHall_def
    deleteHall_def toggleHallStatus_def checkHallAvailability_def
  by (rule try_catch_plain try_catch_message)+

lemma foodItems_actions_return:
  "returnsEnvelope getAvailableFoodItems w"
  "returnsEnvelope getAllFoodItems w"
  "returnsEnvelope (getFoodItemsByCategory category) w"
  "returnsEnvelope (createFoodItem rt finput) w"
  "returnsEnvelope (updateFoodItem rt i finput) w"
  "returnsEnvelope (deleteFoodItem i) w"
  "returnsEnvelope (toggleFoodItemAvailability i) w"
  unfolding getAvailableFoodItems_def getAllFoodItems_def getFoodItemsByCategory_def
    createFoodItem_def updateFoodItem_def deleteFoodItem_def toggleFoodItemAvailability_def
  by (rule try_catch_plain try_catch_message)+

lemma themes_actions_return:
  "returnsEnvelope getAvailableThemes w"
  "returnsEnvelope getAllThemes w"
  "returnsEnvelope (getThemeById i) w"
  "returnsEnvelope (createTheme rt tinput) w"
  "returnsEnvelope (updateTheme rt i tinput) w"
  "returnsEnvelope (deleteTheme i) w"
  "returnsEnvelope (toggleThemeAvailability i) w"
  unfolding getAvailableThemes_def getAllThemes_def getThemeById_def createTheme_def
    updateTheme_def deleteTheme_def toggleThemeAvailability_def
  by (rule try_catch_plain try_catch_message)+

text \<open>
  Claim C6 says that every exported action returns an envelope and never lets an
  exception through. \<^verbatim>\<open>createTestHall\<close> of \<^verbatim>\<open>test.ts\<close> is exported and has no
  \<^verbatim>\<open>try\<close>: when the store refuses the call, the exception reaches the caller (and
  when the store accepts it, the result is the hall row, not an envelope).
\<close>

theorem createTestHall_propagates:
  "fst (createTestHall storeDown) = Inl (Error ''Connection refused'')"
  by (simp add: createTestHall_def hall_create_def await_def prismaCall_def storeDown_def
        scenarioWorld_def)

text \<open>The same holds for the other function of that file.\<close>

lemma test_getAllHalls_propagates:
  "fst (test_getAllHalls storeDown) = Inl (Error ''Connection refused'')"
  by (simp add: test_getAllHalls_def hall_findMany_createdAt_desc_def await_def prismaCall_def
        storeDown_def scenarioWorld_def)

text \<open>
  Claim C6, amended. Every exported action of \<^verbatim>\<open>bookings.ts\<close>, \<^verbatim>\<open>halls.ts\<close>,
  \<^verbatim>\<open>food-items.ts\<close> and \<^verbatim>\<open>themes.ts\<close> returns a result envelope for every input,
  every state of the tables and every fault script of the store, and never throws.
\<close>

theorem actions_return_envelopes:
  "returnsEnvelope (createBooking rt uid input) w
   \<and> returnsEnvelope (getMyBookings uid) w
   \<and> returnsEnvelope (getBookingById i) w
   \<and> returnsEnvelope getAllBookings w
   \<and> returnsEnvelope (updateBookingStatus i st) w
   \<and> returnsEnvelope (updatePaymentStatus i ps pid) w
   \<and> returnsEnvelope (cancelBooking i reason) w
   \<and> returnsEnvelope getBookingStats w
   \<and> returnsEnvelope getActiveHalls w
   \<and> returnsEnvelope (getHallById i) w
   \<and> returnsEnvelope getAllHalls w
   \<and> returnsEnvelope (createHall rt hinput) w
   \<and> returnsEnvelope (updateHall rt i hinput) w
   \<and> returnsEnvelope (deleteHall i) w
   \<and> returnsEnvelope (toggleHallStatus i) w
   \<and> returnsEnvelope (checkHallAvailability rt i date slot) w
   \<and> returnsEnvelope getAvailableFoodItems w
   \<and> returnsEnvelope getAllFoodItems w
   \<and> returnsEnvelope (getFoodItemsByCategory category) w
   \<and> returnsEnvelope (createFoodItem rt finput) w
   \<and> returnsEnvelope (updateFoodItem rt i finput) w
   \<and> returnsEnvelope (deleteFoodItem i) w
   \<and> returnsEnvelope (toggleFoodItemAvailability i) w
   \<and> returnsEnvelope getAvailableThemes w
   \<and> returnsEnvelope getAllThemes w
   \<and> returnsEnvelope (getThemeById i) w
   \<and> returnsEnvelope (createTheme rt tinput) w
   \<and> returnsEnvelope (updateTheme rt i tinput) w
   \<and> returnsEnvelope (deleteTheme i) w
   \<and> returnsEnvelope (toggleThemeAvailability i) w"
  by (intro conjI bookings_actions_return halls_actions_return foodItems_actions_return
        themes_actions_return)

text \<open>With the store down, the actions answer with failure envelopes.\<close>

lemma storeDown_failures:
  "fst (createBooking scenarioRuntime ''user-1'' scenarioInput storeDown)
     = Inr (Failure ''Connection refused'')"
  "fst (deleteHall ''hall-a'' storeDown) = Inr (Failure ''Failed to delete hall'')"
  "fst (getBookingStats storeDown) = Inr (Failure ''Failed to fetch statistics'')"
  by (simp_all add: createBooking_eval deleteHall_def getBookingStats_def promise_all_def
        booking_count_def booking_aggregate_sum_totalAmount_def
        storeDown_def scenario_defs)

end
